theory Spec2Isabelle
  imports Main "HOL-Library.Word"
begin

unbundle bit_operations_syntax

section \<open>Python string helpers\<close>

text \<open>Decimal rendering of an integer, as \<^verbatim>\<open>str\<close> and \<^verbatim>\<open>'{0}'.format\<close> give it.\<close>

definition digit_char :: "nat \<Rightarrow> char" where
  "digit_char d = ''0123456789'' ! (d mod 10)"

fun str_nat :: "nat \<Rightarrow> string" where
  "str_nat n = (if n < 10 then [digit_char n] else str_nat (n div 10) @ [digit_char (n mod 10)])"

definition str_int :: "int \<Rightarrow> string" where
  "str_int i = (if i < 0 then CHR ''-'' # str_nat (nat (- i)) else str_nat (nat i))"

section \<open>Exceptions\<close>

text \<open>The exception classes of the \<^verbatim>\<open>etcd\<close> client library that the code names, all of
  them subclasses of \<^verbatim>\<open>etcd.EtcdException\<close>; \<open>EtcdOther\<close> stands for every other subclass.\<close>

datatype etcd_kind =
    EtcdKeyNotFound
  | EtcdCompareFailed
  | EtcdAlreadyExist
  | EtcdWatchTimedOut
  | EtcdEventIndexCleared
  | EtcdClusterIdChanged
  | EtcdNotDir
  | EtcdOther

text \<open>The payload of a store exception is a dictionary or \<^verbatim>\<open>None\<close>. Only its integer
  entries are ever read (\<^verbatim>\<open>errorCode\<close>, \<^verbatim>\<open>error_code\<close>, \<^verbatim>\<open>status\<close>, \<^verbatim>\<open>index\<close>).\<close>

type_synonym payload = "(string \<rightharpoonup> int) option"

datatype errno = ENOENT | EACCES | EISDIR | EEXIST | ENOTDIR | ENOSPC | EIO

datatype error =
    EtcdException etcd_kind payload
  | NoJobError
  | KeyError string
  | KeyTimeoutError string
  | KeyCredentialError string
  | BatchError string
  | TypeError
  | UnboundLocalError string
  | AssertionError
  | ValueError string
  | IndexError
  | AttributeError string
  | OSError errno
  | CalledProcessError

section \<open>The store client and the process environment\<close>

text \<open>The result object of the client library: value, indices and, for a directory, the
  nodes below it (the attribute \<^verbatim>\<open>_children\<close>).\<close>

datatype etcd_result =
  EtcdResult (res_value: "string option") (modifiedIndex: int) (etcd_index: int)
    (nodes: "etcd_result list")


text \<open>A request sent through the client: \<open>Read path recurse\<close>,
  \<open>Write path v prevIndex prevExist\<close>, \<open>Watch path index timeout\<close>.\<close>

datatype request =
    Read string bool
  | Write string "string option" "int option" "bool option"
  | Watch string int int

datatype response = Returns etcd_result | Raises etcd_kind payload

text \<open>The calls made to the operating system for the secret file: \<open>Stat path\<close>,
  \<open>FileRead path\<close> for \<^verbatim>\<open>open(path).read()\<close>, \<open>Mkdir path\<close>, \<open>Open path mode\<close> for
  \<^verbatim>\<open>os.open(path, O_CREAT | O_WRONLY | O_TRUNC, mode)\<close>, \<open>Write fd s\<close> and \<open>Close fd\<close>.\<close>

datatype os_call =
    Stat string
  | FileRead string
  | Mkdir string
  | Open string int
  | Write_fd nat string
  | Close nat

text \<open>The client object; \<open>password\<close> is its \<^verbatim>\<open>password\<close> attribute.\<close>

datatype client = Client (password: "string option")

datatype process_type = SETUP | HYPERVISOR | LAUNCHER | USER | OTHER

datatype auth_type = Password | Munge

text \<open>The fields of \<^verbatim>\<open>SlurmManager\<close> that the modelled methods use, followed by the
  environment of the process. The store is external: \<open>etcd_script\<close> lists the answers the
  client will get, in order, and \<open>etcd_log\<close> records the requests sent. A call made when
  the script is exhausted never returns. \<open>keyval_client\<close> and \<open>last_cred_renew\<close> are
  \<open>None\<close> until the client is created. The operating system is external too: what a
  system call answers is given by the environment as a function of its arguments (an
  error number, or the mode, the content, the descriptor), and \<open>os_log\<close> records the
  calls made. The k-th run of \<^verbatim>\<open>munge\<close> gives \<open>munge k\<close>, the
  k-th byte of \<^verbatim>\<open>os.urandom\<close> is \<open>entropy k\<close>; \<open>log_warnings\<close> collects the messages of
  \<^verbatim>\<open>logging.warning\<close> (the other log levels are left out). Times are in microseconds,
  the resolution of \<^verbatim>\<open>datetime\<close>; the k-th reading of the clock is \<open>clock k\<close>.\<close>

record state =
  proc_type :: process_type
  etcd_auth_type :: auth_type
  etcd_password :: "string option"
  rank_map :: "int list"
  batchuser :: string
  batchid :: int
  pcocc_state_dir :: string
  node_rank :: int
  keyval_client :: "client option"
  last_cred_renew :: "int option"
  etcd_script :: "response list"
  etcd_log :: "request list"
  clock :: "nat \<Rightarrow> int"
  clock_reads :: nat
  environ :: "string \<rightharpoonup> string"
  os_stat_answer :: "string \<Rightarrow> errno + int"
  file_read_answer :: "string \<Rightarrow> errno + string"
  os_mkdir_answer :: "string \<Rightarrow> errno option"
  os_open_answer :: "string \<Rightarrow> errno + nat"
  os_write_answer :: "nat \<Rightarrow> string \<Rightarrow> errno option"
  os_close_answer :: "nat \<Rightarrow> errno option"
  os_log :: "os_call list"
  uid :: nat
  entropy :: "nat \<Rightarrow> 8 word"
  entropy_pos :: nat
  munge :: "nat \<Rightarrow> error + string"
  munge_calls :: nat
  conf_dir :: string
  log_warnings :: "string list"

text \<open>What a method does: it never returns (\<open>None\<close>), or raises or returns in a new state.\<close>

type_synonym 'a outcome = "((error + 'a) \<times> state) option"

section \<open>Key namespace\<close>

definition in_a_job :: "state \<Rightarrow> bool" where
  "in_a_job st = (batchid st \<noteq> 0)"

definition only_in_a_job :: "state \<Rightarrow> error + unit" where
  "only_in_a_job st = (if \<not> in_a_job st then Inl NoJobError else Inr ())"

definition get_key_path :: "state \<Rightarrow> string \<Rightarrow> string \<Rightarrow> error + string" where
  "get_key_path st key_type key =
     (if key_type = ''global'' then Inr (''/pcocc/global/'' @ key)
      else if key_type = ''global/user'' then
        Inr (''/pcocc/global/users/'' @ batchuser st @ ''/'' @ key)
      else if key_type = ''cluster'' then
        (case only_in_a_job st of
           Inl e \<Rightarrow> Inl e
         | Inr _ \<Rightarrow> Inr (''/pcocc/cluster/'' @ str_int (batchid st) @ ''/'' @ key))
      else if key_type = ''cluster/user'' then
        (case only_in_a_job st of
           Inl e \<Rightarrow> Inl e
         | Inr _ \<Rightarrow> Inr (''/pcocc/cluster/users/'' @ batchuser st @ ''/''
                         @ str_int (batchid st) @ ''/'' @ key))
      else Inl (KeyError key_type))"

section \<open>Credential provider\<close>

definition ETCD_PASSWORD_BYTES :: nat where
  "ETCD_PASSWORD_BYTES = 16"

definition S_IRGRP :: int where "S_IRGRP = 32"
definition S_IWGRP :: int where "S_IWGRP = 16"
definition S_IROTH :: int where "S_IROTH = 4"
definition S_IWOTH :: int where "S_IWOTH = 2"

definition bad_perms :: int where
  "bad_perms = S_IRGRP OR S_IWGRP OR S_IROTH OR S_IWOTH"

definition is_space :: "char \<Rightarrow> bool" where
  "is_space c = (c \<in> set [CHR '' '', CHR 0x09, CHR 0x0A, CHR 0x0B, CHR 0x0C, CHR 0x0D])"

text \<open>\<^verbatim>\<open>str.strip()\<close>: whitespace removed at both ends.\<close>

definition strip :: "string \<Rightarrow> string" where
  "strip s = rev (dropWhile is_space (rev (dropWhile is_space s)))"

text \<open>\<^verbatim>\<open>os.path.join\<close> of two components.\<close>

definition path_join :: "string \<Rightarrow> string \<Rightarrow> string" where
  "path_join a b =
     (if b \<noteq> [] \<and> hd b = CHR ''/'' then b
      else if a = [] \<or> last a = CHR ''/'' then a @ b
      else a @ ''/'' @ b)"

text \<open>\<^verbatim>\<open>binascii.b2a_hex\<close>: two lower-case hexadecimal digits for each byte.\<close>

definition hex_char :: "nat \<Rightarrow> char" where
  "hex_char d = ''0123456789abcdef'' ! (d mod 16)"

definition b2a_hex :: "8 word list \<Rightarrow> string" where
  "b2a_hex bs = concat (map (\<lambda>b. [hex_char (unat b div 16), hex_char (unat b mod 16)]) bs)"

text \<open>The system calls of \<^verbatim>\<open>_init_password\<close>: each is recorded, and answered by the
  environment.\<close>

definition called :: "os_call \<Rightarrow> state \<Rightarrow> state" where
  "called c st = st\<lparr>os_log := os_log st @ [c]\<rparr>"

definition os_stat :: "string \<Rightarrow> state \<Rightarrow> (errno + int) \<times> state" where
  "os_stat p st = (os_stat_answer st p, called (Stat p) st)"

definition file_read :: "string \<Rightarrow> state \<Rightarrow> (errno + string) \<times> state" where
  "file_read p st = (file_read_answer st p, called (FileRead p) st)"

definition os_mkdir :: "string \<Rightarrow> state \<Rightarrow> errno option \<times> state" where
  "os_mkdir p st = (os_mkdir_answer st p, called (Mkdir p) st)"

definition os_open :: "string \<Rightarrow> int \<Rightarrow> state \<Rightarrow> (errno + nat) \<times> state" where
  "os_open p mode st = (os_open_answer st p, called (Open p mode) st)"

definition os_write :: "nat \<Rightarrow> string \<Rightarrow> state \<Rightarrow> errno option \<times> state" where
  "os_write f s st = (os_write_answer st f s, called (Write_fd f s) st)"

definition os_close :: "nat \<Rightarrow> state \<Rightarrow> errno option \<times> state" where
  "os_close f st = (os_close_answer st f, called (Close f) st)"

definition os_urandom :: "nat \<Rightarrow> state \<Rightarrow> 8 word list \<times> state" where
  "os_urandom n st =
     (map (entropy st) [entropy_pos st ..< entropy_pos st + n],
      st\<lparr>entropy_pos := entropy_pos st + n\<rparr>)"

text \<open>\<^verbatim>\<open>str(e)\<close> of an \<^verbatim>\<open>OSError\<close>, with the file name when the error carries one.\<close>

definition str_os_error :: "errno \<Rightarrow> string option \<Rightarrow> string" where
  "str_os_error en filename =
     (case en of
        ENOENT \<Rightarrow> ''[Errno 2] No such file or directory''
      | EACCES \<Rightarrow> ''[Errno 13] Permission denied''
      | EISDIR \<Rightarrow> ''[Errno 21] Is a directory''
      | EEXIST \<Rightarrow> ''[Errno 17] File exists''
      | ENOTDIR \<Rightarrow> ''[Errno 20] Not a directory''
      | ENOSPC \<Rightarrow> ''[Errno 28] No space left on device''
      | EIO \<Rightarrow> ''[Errno 5] Input/output error'')
     @ (case filename of None \<Rightarrow> [] | Some p \<Rightarrow> '': '' @ [CHR 0x27] @ p @ [CHR 0x27])"

definition warn_loose :: "int \<Rightarrow> string \<Rightarrow> state \<Rightarrow> state" where
  "warn_loose st_mode pwd_path st =
     (if st_mode AND bad_perms \<noteq> 0
      then st\<lparr>log_warnings := log_warnings st @ [''Loose permissions on password file '' @ pwd_path]\<rparr>
      else st)"

text \<open>The tail of \<^verbatim>\<open>_init_password\<close> for an unprivileged process: the directory is made
  (a failure is ignored), the secret is generated, and written to the file opened with
  mode \<^verbatim>\<open>0400\<close>, which is 256.\<close>

definition generate_password :: "string \<Rightarrow> state \<Rightarrow> (error + unit) \<times> state" where
  "generate_password pwd_path st =
     (let st1 = snd (os_mkdir (pcocc_state_dir st) st);
          (bytes, st2) = os_urandom ETCD_PASSWORD_BYTES st1;
          st3 = st2\<lparr>etcd_password := Some (b2a_hex bytes)\<rparr>
      in case os_open pwd_path 256 st3 of
           (Inl en, st4) \<Rightarrow>
             (Inl (KeyCredentialError
                (''unable to generate password: '' @ str_os_error en (Some pwd_path))), st4)
         | (Inr f, st4) \<Rightarrow>
             (case os_write f (b2a_hex bytes) st4 of
                (Some en, st5) \<Rightarrow>
                  (Inl (KeyCredentialError
                     (''unable to generate password: '' @ str_os_error en None)), st5)
              | (None, st5) \<Rightarrow>
                  (case os_close f st5 of
                     (Some en, st6) \<Rightarrow>
                       (Inl (KeyCredentialError
                          (''unable to generate password: '' @ str_os_error en None)), st6)
                   | (None, st6) \<Rightarrow> (Inr (), st6))))"

definition init_password :: "state \<Rightarrow> (error + unit) \<times> state" where
  "init_password st =
     (if uid st = 0 then
        (let pwd_path = path_join (conf_dir st) ''etcd-password''
         in case os_stat pwd_path st of
              (Inl en, st1) \<Rightarrow> (Inl (KeyCredentialError ''unable to read password file''), st1)
            | (Inr st_mode, st1) \<Rightarrow>
                (case file_read pwd_path (warn_loose st_mode pwd_path st1) of
                   (Inl en, st2) \<Rightarrow>
                     (Inl (KeyCredentialError ''unable to read password file''), st2)
                 | (Inr data, st2) \<Rightarrow> (Inr (), st2\<lparr>etcd_password := Some (strip data)\<rparr>)))
      else
        (let pwd_path = path_join (pcocc_state_dir st) ''.etcd-password'';
             on_error = (\<lambda>en st'.
               if en \<noteq> ENOENT \<or> proc_type st' = HYPERVISOR
               then (Inl (KeyCredentialError ''unable to read password file''), st')
               else generate_password pwd_path st')
         in case os_stat pwd_path st of
              (Inl en, st1) \<Rightarrow> on_error en st1
            | (Inr st_mode, st1) \<Rightarrow>
                (case file_read pwd_path (warn_loose st_mode pwd_path st1) of
                   (Inl en, st2) \<Rightarrow> on_error en st2
                 | (Inr data, st2) \<Rightarrow>
                     (let st3 = st2\<lparr>etcd_password := Some (strip data)\<rparr>
                      in if length (strip data) \<noteq> 2 * ETCD_PASSWORD_BYTES
                         then (Inl (KeyCredentialError (''password file '' @ pwd_path
                                 @ '' is invalid, please delete it and allocate a new virual cluster'')), st3)
                         else (Inr (), st3)))))"

definition get_credential :: "state \<Rightarrow> (error + string option) \<times> state" where
  "get_credential st =
     (case etcd_auth_type st of
        Munge \<Rightarrow>
          (case munge st (munge_calls st) of
             Inl e \<Rightarrow> (Inl e, st\<lparr>munge_calls := Suc (munge_calls st)\<rparr>)
           | Inr out \<Rightarrow> (Inr (Some out), st\<lparr>munge_calls := Suc (munge_calls st)\<rparr>))
      | Password \<Rightarrow>
          (case etcd_password st of
             None \<Rightarrow>
               (case init_password st of
                  (Inl e, st') \<Rightarrow> (Inl e, st')
                | (Inr u, st') \<Rightarrow> (Inr (etcd_password st'), st'))
           | Some p \<Rightarrow> (Inr (Some p), st)))"

section \<open>Connection manager\<close>

definition now :: "state \<Rightarrow> int \<times> state" where
  "now st = (clock st (clock_reads st), st\<lparr>clock_reads := Suc (clock_reads st)\<rparr>)"

text \<open>The property \<^verbatim>\<open>keyval_client\<close>: the client is created on first use. The constructor
  of the library's client is taken not to fail.\<close>

definition get_keyval_client :: "state \<Rightarrow> (error + client) \<times> state" where
  "get_keyval_client st =
     (case keyval_client st of
        Some c \<Rightarrow> (Inr c, st)
      | None \<Rightarrow>
          (case get_credential st of
             (Inl e, st1) \<Rightarrow> (Inl e, st1)
           | (Inr cred, st1) \<Rightarrow>
               (let st2 = st1\<lparr>keyval_client := Some (Client cred)\<rparr>;
                    (t, st3) = now st2
                in (Inr (Client cred), st3\<lparr>last_cred_renew := Some t\<rparr>))))"

definition dict_get :: "('k \<rightharpoonup> 'v) \<Rightarrow> 'k \<Rightarrow> 'v \<Rightarrow> 'v" where
  "dict_get d k dflt = (case d k of None \<Rightarrow> dflt | Some v \<Rightarrow> v)"

text \<open>The test of \<^verbatim>\<open>_try_renew_credential\<close> for an expired credential.\<close>

definition cred_expired :: "payload \<Rightarrow> bool" where
  "cred_expired p =
     (case p of
        None \<Rightarrow> False
      | Some d \<Rightarrow>
          dict_get d ''errorCode'' 0 = 110 \<or> dict_get d ''error_code'' 0 = 110
          \<or> dict_get d ''status'' 0 = 401)"

definition cooldown :: int where
  "cooldown = 15 * 1000000"

definition try_renew_credential :: "etcd_kind \<Rightarrow> payload \<Rightarrow> state \<Rightarrow> (error + unit) \<times> state" where
  "try_renew_credential k p st =
     (if cred_expired p then
        (let (t, st1) = now st
         in case last_cred_renew st1 of
              None \<Rightarrow> (Inl (AttributeError ''_last_cred_renew''), st1)
            | Some last_renew \<Rightarrow>
                if t - last_renew > cooldown then
                  (let (t2, st2) = now st1;
                       st3 = st2\<lparr>last_cred_renew := Some t2\<rparr>
                   in case get_credential st3 of
                        (Inl e, st4) \<Rightarrow> (Inl e, st4)
                      | (Inr cred, st4) \<Rightarrow>
                          (case keyval_client st4 of
                             None \<Rightarrow> (Inl (AttributeError ''_keyval_client''), st4)
                           | Some c \<Rightarrow> (Inr (), st4\<lparr>keyval_client := Some (Client cred)\<rparr>)))
                else (Inl (KeyCredentialError ''access denied''), st1))
      else (Inl (EtcdException k p), st))"

text \<open>The decorator \<^verbatim>\<open>_retry_on_cred_expiry\<close>. Its loop has no bound, so the model counts
  the rounds: \<open>None\<close> when \<open>fuel\<close> rounds did not end it.\<close>

fun retry_on_cred_expiry :: "nat \<Rightarrow> (state \<Rightarrow> 'a outcome) \<Rightarrow> state \<Rightarrow> 'a outcome" where
  "retry_on_cred_expiry 0 func st = None"
| "retry_on_cred_expiry (Suc fuel) func st =
     (case func st of
        None \<Rightarrow> None
      | Some (Inr v, st1) \<Rightarrow> Some (Inr v, st1)
      | Some (Inl e, st1) \<Rightarrow>
          (case e of
             EtcdException k p \<Rightarrow>
               (case try_renew_credential k p st1 of
                  (Inl e', st2) \<Rightarrow> Some (Inl e', st2)
                | (Inr u, st2) \<Rightarrow> retry_on_cred_expiry fuel func st2)
           | _ \<Rightarrow> Some (Inl e, st1)))"

section \<open>Store operations\<close>

text \<open>One call of a method of the client: the client is fetched (and created on first
  use), the request is sent, and the next answer of the script comes back.\<close>

definition client_call :: "request \<Rightarrow> state \<Rightarrow> etcd_result outcome" where
  "client_call req st =
     (case get_keyval_client st of
        (Inl e, st1) \<Rightarrow> Some (Inl e, st1)
      | (Inr c, st1) \<Rightarrow>
          (case etcd_script st1 of
             [] \<Rightarrow> None
           | r # rs \<Rightarrow>
               (let st2 = st1\<lparr>etcd_script := rs, etcd_log := etcd_log st1 @ [req]\<rparr>
                in case r of
                     Returns x \<Rightarrow> Some (Inr x, st2)
                   | Raises k p \<Rightarrow> Some (Inl (EtcdException k p), st2))))"

text \<open>\<^verbatim>\<open>e.payload['index']\<close>\<close>

definition payload_index :: "payload \<Rightarrow> error + int" where
  "payload_index p =
     (case p of
        None \<Rightarrow> Inl TypeError
      | Some d \<Rightarrow> (case d ''index'' of None \<Rightarrow> Inl (KeyError ''index'') | Some i \<Rightarrow> Inr i))"

text \<open>Each decorated method is a body, named \<open>_body\<close>, under \<open>retry_on_cred_expiry\<close>.\<close>

definition read_key_index_body ::
  "string \<Rightarrow> string \<Rightarrow> bool \<Rightarrow> state \<Rightarrow> (string option \<times> int) outcome" where
  "read_key_index_body key_type key realindex st =
     (case get_key_path st key_type key of
        Inl e \<Rightarrow> Some (Inl e, st)
      | Inr key_path \<Rightarrow>
          (case client_call (Read key_path False) st of
             None \<Rightarrow> None
           | Some (Inl e, st1) \<Rightarrow>
               (case e of
                  EtcdException EtcdKeyNotFound p \<Rightarrow>
                    (case payload_index p of
                       Inl e' \<Rightarrow> Some (Inl e', st1)
                     | Inr i \<Rightarrow> Some (Inr (None, i), st1))
                | _ \<Rightarrow> Some (Inl e, st1))
           | Some (Inr ret, st1) \<Rightarrow>
               if realindex then Some (Inr (res_value ret, modifiedIndex ret), st1)
               else Some (Inr (res_value ret, max (modifiedIndex ret) (etcd_index ret)), st1)))"

definition read_key_index ::
  "nat \<Rightarrow> string \<Rightarrow> string \<Rightarrow> bool \<Rightarrow> state \<Rightarrow> (string option \<times> int) outcome" where
  "read_key_index fuel key_type key realindex =
     retry_on_cred_expiry fuel (read_key_index_body key_type key realindex)"



definition write_request ::
  "string \<Rightarrow> string \<Rightarrow> string option \<Rightarrow> int option \<Rightarrow> bool option \<Rightarrow> state
   \<Rightarrow> etcd_result outcome" where
  "write_request key_type key v prevIndex prevExist st =
     (case get_key_path st key_type key of
        Inl e \<Rightarrow> Some (Inl e, st)
      | Inr key_path \<Rightarrow> client_call (Write key_path v prevIndex prevExist) st)"

definition write_key ::
  "nat \<Rightarrow> string \<Rightarrow> string \<Rightarrow> string option \<Rightarrow> state \<Rightarrow> etcd_result outcome" where
  "write_key fuel key_type key v =
     retry_on_cred_expiry fuel (write_request key_type key v None None)"

definition write_key_index ::
  "nat \<Rightarrow> string \<Rightarrow> string \<Rightarrow> string option \<Rightarrow> int \<Rightarrow> state \<Rightarrow> etcd_result outcome" where
  "write_key_index fuel key_type key v index =
     retry_on_cred_expiry fuel (write_request key_type key v (Some index) None)"

definition write_key_new ::
  "nat \<Rightarrow> string \<Rightarrow> string \<Rightarrow> string option \<Rightarrow> state \<Rightarrow> etcd_result outcome" where
  "write_key_new fuel key_type key v =
     retry_on_cred_expiry fuel (write_request key_type key v None (Some False))"

text \<open>The races that \<^verbatim>\<open>atom_update_key\<close> catches to start again.\<close>

definition is_race :: "error \<Rightarrow> bool" where
  "is_race e =
     (case e of
        EtcdException k p \<Rightarrow> k = EtcdCompareFailed \<or> k = EtcdKeyNotFound \<or> k = EtcdAlreadyExist
      | _ \<Rightarrow> False)"

text \<open>One pass of the loop of \<^verbatim>\<open>atom_update_key\<close>: read, transform, write. The transform
  \<open>func\<close> is a pure function of the value read, giving the new value and the result.\<close>

definition atom_update_key_pass ::
  "nat \<Rightarrow> string \<Rightarrow> string \<Rightarrow> (string option \<Rightarrow> string option \<times> 'r) \<Rightarrow> state \<Rightarrow> 'r outcome" where
  "atom_update_key_pass fuel key_type key func st =
     (case read_key_index fuel key_type key True st of
        None \<Rightarrow> None
      | Some (Inl e, st1) \<Rightarrow> Some (Inl e, st1)
      | Some (Inr (v, index), st1) \<Rightarrow>
          (case func v of
             (new_value, ret) \<Rightarrow>
               (case v of
                  None \<Rightarrow>
                    (case new_value of
                       None \<Rightarrow> Some (Inr ret, st1)
                     | Some nv \<Rightarrow>
                         (case write_key_new fuel key_type key new_value st1 of
                            None \<Rightarrow> None
                          | Some (Inl e, st2) \<Rightarrow> Some (Inl e, st2)
                          | Some (Inr w, st2) \<Rightarrow> Some (Inr ret, st2)))
                | Some old \<Rightarrow>
                    (case write_key_index fuel key_type key new_value index st1 of
                       None \<Rightarrow> None
                     | Some (Inl e, st2) \<Rightarrow> Some (Inl e, st2)
                     | Some (Inr w, st2) \<Rightarrow> Some (Inr ret, st2)))))"

fun atom_update_key_loop ::
  "nat \<Rightarrow> string \<Rightarrow> string \<Rightarrow> (string option \<Rightarrow> string option \<times> 'r) \<Rightarrow> state \<Rightarrow> 'r outcome" where
  "atom_update_key_loop 0 key_type key func st = None"
| "atom_update_key_loop (Suc fuel) key_type key func st =
     (case atom_update_key_pass (Suc fuel) key_type key func st of
        None \<Rightarrow> None
      | Some (Inl e, st1) \<Rightarrow>
          if is_race e then atom_update_key_loop fuel key_type key func st1
          else Some (Inl e, st1)
      | Some (Inr ret, st1) \<Rightarrow> Some (Inr ret, st1))"

definition atom_update_key ::
  "nat \<Rightarrow> string \<Rightarrow> string \<Rightarrow> (string option \<Rightarrow> string option \<times> 'r) \<Rightarrow> state \<Rightarrow> 'r outcome" where
  "atom_update_key fuel key_type key func =
     retry_on_cred_expiry fuel (atom_update_key_loop fuel key_type key func)"

text \<open>\<^verbatim>\<open>wait_key_index\<close>. Every branch of the body of its \<^verbatim>\<open>while True\<close> returns or raises,
  so the body runs once. The handler of \<^verbatim>\<open>EtcdClusterIdChanged\<close> binds no name and reads
  \<^verbatim>\<open>e\<close>, a local variable that nothing has assigned at that point.\<close>

definition wait_key_index_body ::
  "string \<Rightarrow> string \<Rightarrow> int \<Rightarrow> int \<Rightarrow> state \<Rightarrow> (etcd_result option \<times> int) outcome" where
  "wait_key_index_body key_type key index timeout st =
     (case get_key_path st key_type key of
        Inl e \<Rightarrow> Some (Inl e, st)
      | Inr key_path \<Rightarrow>
          (case client_call (Watch key_path (index + 1) timeout) st of
             None \<Rightarrow> None
           | Some (Inr ret, st1) \<Rightarrow>
               Some (Inr (Some ret, max (modifiedIndex ret) (etcd_index ret)), st1)
           | Some (Inl e, st1) \<Rightarrow>
               (case e of
                  EtcdException EtcdWatchTimedOut p \<Rightarrow> Some (Inl (KeyTimeoutError key_path), st1)
                | EtcdException EtcdEventIndexCleared p \<Rightarrow>
                    (case payload_index p of
                       Inl e' \<Rightarrow> Some (Inl e', st1)
                     | Inr i \<Rightarrow> Some (Inr (None, i), st1))
                | EtcdException EtcdClusterIdChanged p \<Rightarrow> Some (Inl (UnboundLocalError ''e''), st1)
                | _ \<Rightarrow> Some (Inl e, st1))))"

definition wait_key_index ::
  "nat \<Rightarrow> string \<Rightarrow> string \<Rightarrow> int \<Rightarrow> int \<Rightarrow> state \<Rightarrow> (etcd_result option \<times> int) outcome" where
  "wait_key_index fuel key_type key index timeout =
     retry_on_cred_expiry fuel (wait_key_index_body key_type key index timeout)"



text \<open>Truth value of a string or \<^verbatim>\<open>None\<close>.\<close>

definition truthy :: "string option \<Rightarrow> bool" where
  "truthy v = (case v of None \<Rightarrow> False | Some s \<Rightarrow> s \<noteq> [])"

text \<open>The loop \<^verbatim>\<open>while not val\<close> of \<^verbatim>\<open>read_key\<close>, entered with a false \<^verbatim>\<open>val\<close>; inside it
  \<^verbatim>\<open>val\<close> is the result object of the watch or \<^verbatim>\<open>None\<close>.\<close>

fun read_key_wait ::
  "nat \<Rightarrow> string \<Rightarrow> string \<Rightarrow> int \<Rightarrow> int \<Rightarrow> state \<Rightarrow> string option outcome" where
  "read_key_wait 0 key_type key index timeout st = None"
| "read_key_wait (Suc fuel) key_type key index timeout st =
     (case wait_key_index (Suc fuel) key_type key index timeout st of
        None \<Rightarrow> None
      | Some (Inl e, st1) \<Rightarrow> Some (Inl e, st1)
      | Some (Inr (val, index'), st1) \<Rightarrow>
          (case val of
             None \<Rightarrow> read_key_wait fuel key_type key index' timeout st1
           | Some r \<Rightarrow> Some (Inr (res_value r), st1)))"

definition read_key ::
  "nat \<Rightarrow> string \<Rightarrow> string \<Rightarrow> bool \<Rightarrow> int \<Rightarrow> state \<Rightarrow> string option outcome" where
  "read_key fuel key_type key blocking timeout st =
     (case read_key_index fuel key_type key False st of
        None \<Rightarrow> None
      | Some (Inl e, st1) \<Rightarrow> Some (Inl e, st1)
      | Some (Inr (val, index), st1) \<Rightarrow>
          if truthy val \<or> \<not> blocking then Some (Inr val, st1)
          else read_key_wait fuel key_type key index timeout st1)"

section \<open>Rank map\<close>

definition is_digit :: "char \<Rightarrow> bool" where
  "is_digit c = (c \<in> set ''0123456789'')"

definition digit_val :: "char \<Rightarrow> nat" where
  "digit_val c = length (takeWhile (\<lambda>d. d \<noteq> c) ''0123456789'')"

definition dec_val :: "string \<Rightarrow> nat" where
  "dec_val ds = foldl (\<lambda>a c. 10 * a + digit_val c) 0 ds"

text \<open>\<^verbatim>\<open>int(s)\<close> on a string, in base 10: optional whitespace, an optional sign, optional
  whitespace, a run of digits, optional whitespace; anything else is a \<^verbatim>\<open>ValueError\<close>.\<close>

definition py_int :: "string \<Rightarrow> error + int" where
  "py_int s =
     (let s1 = dropWhile is_space s;
          neg = (s1 \<noteq> [] \<and> hd s1 = CHR ''-'');
          s2 = (if s1 \<noteq> [] \<and> (hd s1 = CHR ''-'' \<or> hd s1 = CHR ''+'') then tl s1 else s1);
          s3 = dropWhile is_space s2;
          ds = takeWhile is_digit s3;
          rest = dropWhile is_space (dropWhile is_digit s3)
      in if ds = [] \<or> rest \<noteq> [] then Inl (ValueError s)
         else Inr (if neg then - int (dec_val ds) else int (dec_val ds)))"

text \<open>\<^verbatim>\<open>s.split(',')\<close>\<close>

fun split_comma :: "string \<Rightarrow> string list" where
  "split_comma [] = [[]]"
| "split_comma (c # cs) =
     (if c = CHR '','' then [] # split_comma cs
      else (case split_comma cs of [] \<Rightarrow> [[c]] | p # ps \<Rightarrow> (c # p) # ps))"

text \<open>\<^verbatim>\<open>re.search(r'(\d+)\(x(\d+)\)', s)\<close>: the leftmost match, as its two groups. A match
  that starts at a given position takes the whole run of digits there: after a shorter
  run the next character is a digit, which is neither \<^verbatim>\<open>(\<close> nor \<^verbatim>\<open>)\<close>.\<close>

definition match_here :: "string \<Rightarrow> (string \<times> string) option" where
  "match_here s =
     (let g1 = takeWhile is_digit s; r1 = dropWhile is_digit s
      in if g1 = [] then None
         else (case r1 of
                 a # b # r2 \<Rightarrow>
                   if a = CHR ''('' \<and> b = CHR ''x'' then
                     (let g2 = takeWhile is_digit r2; r3 = dropWhile is_digit r2
                      in if g2 \<noteq> [] \<and> r3 \<noteq> [] \<and> hd r3 = CHR '')'' then Some (g1, g2) else None)
                   else None
               | _ \<Rightarrow> None))"

fun re_search :: "string \<Rightarrow> (string \<times> string) option" where
  "re_search [] = None"
| "re_search (c # cs) =
     (case match_here (c # cs) of Some m \<Rightarrow> Some m | None \<Rightarrow> re_search cs)"

text \<open>The head of the loop body of \<^verbatim>\<open>_build_rank_map\<close>: \<open>(ntasks, nnodes)\<close> of a block.\<close>

definition parse_node_def :: "string \<Rightarrow> error + (int \<times> int)" where
  "parse_node_def node_def =
     (case re_search node_def of
        Some (g1, g2) \<Rightarrow>
          (case py_int g1 of
             Inl e \<Rightarrow> Inl e
           | Inr ntasks \<Rightarrow>
               (case py_int g2 of Inl e \<Rightarrow> Inl e | Inr nnodes \<Rightarrow> Inr (ntasks, nnodes)))
      | None \<Rightarrow> (case py_int node_def of Inl e \<Rightarrow> Inl e | Inr ntasks \<Rightarrow> Inr (ntasks, 1)))"

text \<open>The two inner loops: \<open>nnodes\<close> times, \<open>ntasks\<close> entries of the node index and then
  the next node index. \<^verbatim>\<open>xrange\<close> of a negative number is empty.\<close>

fun append_nodes :: "nat \<Rightarrow> nat \<Rightarrow> int \<Rightarrow> int list \<Rightarrow> int \<times> int list" where
  "append_nodes 0 ntasks node_index rm = (node_index, rm)"
| "append_nodes (Suc nnodes) ntasks node_index rm =
     append_nodes nnodes ntasks (node_index + 1) (rm @ replicate ntasks node_index)"

text \<open>The outer loop, over the blocks; an exception leaves the entries appended so far.\<close>

fun build_blocks :: "string list \<Rightarrow> int \<Rightarrow> int list \<Rightarrow> (error + unit) \<times> int list" where
  "build_blocks [] node_index rm = (Inr (), rm)"
| "build_blocks (node_def # rest) node_index rm =
     (case parse_node_def node_def of
        Inl e \<Rightarrow> (Inl e, rm)
      | Inr (ntasks, nnodes) \<Rightarrow>
          (case append_nodes (nat nnodes) (nat ntasks) node_index rm of
             (node_index', rm') \<Rightarrow> build_blocks rest node_index' rm'))"

text \<open>\<^verbatim>\<open>_build_rank_map\<close>. The serialiser \<^verbatim>\<open>yaml.dump\<close> is a parameter.\<close>

definition build_rank_map ::
  "(int list \<Rightarrow> string) \<Rightarrow> nat \<Rightarrow> string option \<Rightarrow> state \<Rightarrow> unit outcome" where
  "build_rank_map yaml_dump fuel tasks_per_node st =
     (case only_in_a_job st of
        Inl e \<Rightarrow> Some (Inl e, st)
      | Inr u \<Rightarrow>
          if rank_map st \<noteq> [] then Some (Inl AssertionError, st)
          else
            (case (if truthy tasks_per_node then tasks_per_node
                   else environ st ''SLURM_TASKS_PER_NODE'') of
               None \<Rightarrow> Some (Inl (KeyError ''SLURM_TASKS_PER_NODE''), st)
             | Some tpn \<Rightarrow>
                 (case build_blocks (split_comma tpn) 0 (rank_map st) of
                    (Inl e, rm) \<Rightarrow> Some (Inl e, st\<lparr>rank_map := rm\<rparr>)
                  | (Inr u, rm) \<Rightarrow>
                      (let st1 = st\<lparr>rank_map := rm\<rparr>
                       in if proc_type st1 = SETUP \<and> node_rank st1 = 0 then
                            (case write_key fuel ''cluster'' ''rank_map'' (Some (yaml_dump rm)) st1 of
                               None \<Rightarrow> None
                             | Some (Inl e, st2) \<Rightarrow> Some (Inl e, st2)
                             | Some (Inr w, st2) \<Rightarrow> Some (Inr (), st2))
                          else Some (Inr (), st1)))))"

text \<open>\<^verbatim>\<open>_load_rank_map\<close>. The parser \<^verbatim>\<open>yaml.safe_load\<close> is a parameter.\<close>

definition load_rank_map :: "(string \<Rightarrow> int list) \<Rightarrow> nat \<Rightarrow> state \<Rightarrow> unit outcome" where
  "load_rank_map yaml_safe_load fuel st =
     (if rank_map st \<noteq> [] then Some (Inl (BatchError ''Rank map was already loaded''), st)
      else
        (case read_key fuel ''cluster'' ''rank_map'' True 0 st of
           None \<Rightarrow> None
         | Some (Inl e, st1) \<Rightarrow> Some (Inl e, st1)
         | Some (Inr data, st1) \<Rightarrow>
             (case data of
                None \<Rightarrow> Some (Inl (BatchError ''Unable to load rank map''), st1)
              | Some d \<Rightarrow>
                  if d = [] then Some (Inl (BatchError ''Unable to load rank map''), st1)
                  else Some (Inr (), st1\<lparr>rank_map := yaml_safe_load d\<rparr>))))"

text \<open>The part of \<^verbatim>\<open>SlurmManager.__init__\<close> that sets the rank map up: nothing without a
  job or for the role \<open>OTHER\<close>, otherwise by role.\<close>

definition init_rank_map ::
  "(int list \<Rightarrow> string) \<Rightarrow> (string \<Rightarrow> int list) \<Rightarrow> nat \<Rightarrow> state \<Rightarrow> unit outcome" where
  "init_rank_map yaml_dump yaml_safe_load fuel st =
     (if batchid st = 0 \<or> proc_type st = OTHER then Some (Inr (), st)
      else if proc_type st = SETUP \<or> proc_type st = LAUNCHER \<or> proc_type st = HYPERVISOR
      then build_rank_map yaml_dump fuel None st
      else load_rank_map yaml_safe_load fuel st)"

text \<open>List indexing as Python does it: a negative index counts from the end.\<close>

definition py_index :: "'a list \<Rightarrow> int \<Rightarrow> error + 'a" where
  "py_index xs i =
     (if 0 \<le> i \<and> i < int (length xs) then Inr (xs ! nat i)
      else if i < 0 \<and> - int (length xs) \<le> i then Inr (xs ! nat (int (length xs) + i))
      else Inl IndexError)"

function rank_on_host_loop :: "int list \<Rightarrow> int \<Rightarrow> int \<Rightarrow> int \<Rightarrow> error + int" where
  "rank_on_host_loop m rank host_rank rank_on_host =
     (if rank - rank_on_host \<ge> 0 then
        (case py_index m (rank - rank_on_host) of
           Inl e \<Rightarrow> Inl e
         | Inr h \<Rightarrow>
             if h = host_rank then rank_on_host_loop m rank host_rank (rank_on_host + 1)
             else Inr rank_on_host)
      else Inr rank_on_host)"
  by pat_completeness auto
termination
  by (relation "measure (\<lambda>(m, rank, host_rank, rank_on_host). nat (rank - rank_on_host + 1))") auto

definition get_rank_on_host :: "state \<Rightarrow> int \<Rightarrow> error + int" where
  "get_rank_on_host st rank =
     (case only_in_a_job st of
        Inl e \<Rightarrow> Inl e
      | Inr u \<Rightarrow>
          (case py_index (rank_map st) rank of
             Inl e \<Rightarrow> Inl e
           | Inr host_rank \<Rightarrow>
               (case rank_on_host_loop (rank_map st) rank host_rank 0 of
                  Inl e \<Rightarrow> Inl e
                | Inr rank_on_host \<Rightarrow> Inr (rank_on_host - 1))))"

text \<open>The contiguity invariant of a rank map: once the run of a node's entries has ended,
  that node does not come back.\<close>

fun contiguous :: "int list \<Rightarrow> bool" where
  "contiguous [] = True"
| "contiguous (x # xs) = (x \<notin> set (dropWhile (\<lambda>y. y = x) xs) \<and> contiguous xs)"


section \<open>The distribution string as the specification describes it\<close>

text \<open>A block is a bare task count (one node) or a task count with a number of nodes,
  both written in decimal digits. \<open>render\<close> writes the blocks separated by commas.\<close>

datatype block = Bare string | Compressed string string

fun render_block :: "block \<Rightarrow> string" where
  "render_block (Bare c) = c"
| "render_block (Compressed c n) = c @ ''(x'' @ n @ '')''"

fun render :: "block list \<Rightarrow> string" where
  "render [] = []"
| "render [b] = render_block b"
| "render (b # b' # bs) = render_block b @ '','' @ render (b' # bs)"

definition is_number :: "string \<Rightarrow> bool" where
  "is_number ds = (ds \<noteq> [] \<and> list_all is_digit ds)"

fun valid_block :: "block \<Rightarrow> bool" where
  "valid_block (Bare c) = is_number c"
| "valid_block (Compressed c n) = (is_number c \<and> is_number n)"

text \<open>The task count of each node of a block, and of all the blocks, in node order.\<close>

fun block_counts :: "block \<Rightarrow> nat list" where
  "block_counts (Bare c) = [dec_val c]"
| "block_counts (Compressed c n) = replicate (dec_val n) (dec_val c)"

definition node_counts :: "block list \<Rightarrow> nat list" where
  "node_counts blocks = concat (map block_counts blocks)"

text \<open>The rank map of the specification: node by node, the node index once per task on
  that node, so that the entry at a task rank is the rank of its node.\<close>

fun expand_spec :: "nat \<Rightarrow> nat list \<Rightarrow> int list" where
  "expand_spec node_index [] = []"
| "expand_spec node_index (n # ns) = replicate n (int node_index) @ expand_spec (Suc node_index) ns"

section \<open>Auxiliary notions for the statements\<close>

text \<open>The state after a request was sent and answered by the head of the script.\<close>

definition sent :: "request \<Rightarrow> state \<Rightarrow> state" where
  "sent req st = st\<lparr>etcd_script := tl (etcd_script st), etcd_log := etcd_log st @ [req]\<rparr>"

text \<open>One instance of the serialiser and of the parser, for the examples: the flow style
  that \<^verbatim>\<open>yaml.dump\<close> gives a short list of integers, and its reading.\<close>

fun flow_items :: "int list \<Rightarrow> string" where
  "flow_items [] = []"
| "flow_items [i] = str_int i"
| "flow_items (i # j # js) = str_int i @ '', '' @ flow_items (j # js)"

definition yaml_dump_flow :: "int list \<Rightarrow> string" where
  "yaml_dump_flow m = ''['' @ flow_items m @ '']'' @ [CHR 0x0A]"

definition yaml_load_flow :: "string \<Rightarrow> int list" where
  "yaml_load_flow s =
     (let body = filter (\<lambda>c. c \<noteq> CHR ''['' \<and> c \<noteq> CHR '']'') s
      in if strip body = [] then []
         else map (\<lambda>p. case py_int p of Inl e \<Rightarrow> 0 | Inr i \<Rightarrow> i) (split_comma body))"

section \<open>A state for examples\<close>

text \<open>A user process of job 7 with an open connection, an empty store script, and an
  operating system that finds no file and lets one be made.\<close>

definition example_state :: state where
  "example_state =
     \<lparr>proc_type = USER, etcd_auth_type = Password, etcd_password = Some ''00112233445566778899aabbccddeeff'',
      rank_map = [], batchuser = ''alice'', batchid = 7, pcocc_state_dir = ''/home/alice/.pcocc'',
      node_rank = 1, keyval_client = Some (Client (Some ''00112233445566778899aabbccddeeff'')),
      last_cred_renew = Some 0, etcd_script = [], etcd_log = [], clock = (\<lambda>k. 0), clock_reads = 0,
      environ = Map.empty,
      os_stat_answer = (\<lambda>p. Inl ENOENT), file_read_answer = (\<lambda>p. Inl ENOENT),
      os_mkdir_answer = (\<lambda>p. None), os_open_answer = (\<lambda>p. Inr 3),
      os_write_answer = (\<lambda>f s. None), os_close_answer = (\<lambda>f. None), os_log = [],
      uid = 1000, entropy = (\<lambda>k. 0),
      entropy_pos = 0, munge = (\<lambda>k. Inl CalledProcessError), munge_calls = 0,
      conf_dir = ''/etc/pcocc'', log_warnings = []\<rparr>"

section \<open>Key namespace: the four path shapes\<close>

text \<open>
  Claim C6. \<open>get_key_path\<close> is a function of the scope, the job id, the user and the key
  alone, and gives exactly the four documented paths: \<^verbatim>\<open>/pcocc/global/<key>\<close>,
  \<^verbatim>\<open>/pcocc/global/users/<user>/<key>\<close>, \<^verbatim>\<open>/pcocc/cluster/<batchid>/<key>\<close> and
  \<^verbatim>\<open>/pcocc/cluster/users/<user>/<batchid>/<key>\<close>. An unknown scope raises the programmer
  error \<open>KeyError\<close>; the scopes \<^verbatim>\<open>cluster\<close> and \<^verbatim>\<open>cluster/user\<close> raise \<open>NoJobError\<close> whenever
  the job id is 0, while \<^verbatim>\<open>global\<close> and \<^verbatim>\<open>global/user\<close> succeed without a job.
\<close>

theorem get_key_path_shapes:
  "(batchid st = batchid st' \<and> batchuser st = batchuser st'
      \<longrightarrow> get_key_path st key_type key = get_key_path st' key_type key)
   \<and> get_key_path st ''global'' key = Inr (''/pcocc/global/'' @ key)
   \<and> get_key_path st ''global/user'' key = Inr (''/pcocc/global/users/'' @ batchuser st @ ''/'' @ key)
   \<and> (batchid sj \<noteq> 0 \<longrightarrow>
        get_key_path sj ''cluster'' key = Inr (''/pcocc/cluster/'' @ str_int (batchid sj) @ ''/'' @ key)
        \<and> get_key_path sj ''cluster/user'' key
            = Inr (''/pcocc/cluster/users/'' @ batchuser sj @ ''/'' @ str_int (batchid sj) @ ''/'' @ key))
   \<and> (batchid sn = 0 \<longrightarrow>
        get_key_path sn ''cluster'' key = Inl NoJobError
        \<and> get_key_path sn ''cluster/user'' key = Inl NoJobError)
   \<and> (scope \<notin> {''global'', ''global/user'', ''cluster'', ''cluster/user''}
        \<longrightarrow> get_key_path st scope key = Inl (KeyError scope))"
  by (simp add: get_key_path_def only_in_a_job_def in_a_job_def)

theorem get_key_path_shapes_witness:
  "get_key_path example_state ''cluster'' ''rank_map'' = Inr ''/pcocc/cluster/7/rank_map''
   \<and> get_key_path example_state ''cluster/user'' ''k'' = Inr ''/pcocc/cluster/users/alice/7/k''
   \<and> get_key_path (example_state\<lparr>batchid := 0\<rparr>) ''cluster'' ''rank_map'' = Inl NoJobError
   \<and> get_key_path (example_state\<lparr>batchid := 0\<rparr>) ''cluster/user'' ''k'' = Inl NoJobError
   \<and> get_key_path (example_state\<lparr>batchid := 0\<rparr>) ''global'' ''k'' = Inr ''/pcocc/global/k''
   \<and> get_key_path (example_state\<lparr>batchid := 0\<rparr>) ''global/user'' ''k'' = Inr ''/pcocc/global/users/alice/k''
   \<and> get_key_path example_state ''job'' ''k'' = Inl (KeyError ''job'')
   \<and> get_key_path (example_state\<lparr>node_rank := 3\<rparr>) ''cluster'' ''k''
       = get_key_path example_state ''cluster'' ''k''"
  using get_key_path_shapes [of "example_state\<lparr>batchid := 0\<rparr>" "example_state\<lparr>batchid := 0\<rparr>" "''global''" "''k''"
          example_state "example_state\<lparr>batchid := 0\<rparr>" "''job''"]
        get_key_path_shapes [of "example_state\<lparr>node_rank := 3\<rparr>" example_state "''cluster''" "''k''"
          example_state "example_state\<lparr>batchid := 0\<rparr>" "''job''"]
        get_key_path_shapes [of example_state example_state "''cluster''" "''rank_map''"
          example_state "example_state\<lparr>batchid := 0\<rparr>" "''job''"]
  by (simp add: example_state_def str_int_def digit_char_def get_key_path_def only_in_a_job_def
        in_a_job_def)

section \<open>Rank map queries\<close>

lemma py_index_valid: "0 \<le> i \<Longrightarrow> i < int (length xs) \<Longrightarrow> py_index xs i = Inr (xs ! nat i)"
  by (simp add: py_index_def)

lemma takeWhile_rev_take_Suc:
  "n < length m \<Longrightarrow> takeWhile P (rev (take (Suc n) m))
     = (if P (m ! n) then m ! n # takeWhile P (rev (take n m)) else [])"
  by (simp add: take_Suc_conv_app_nth)

lemma rank_on_host_loop_run:
  "0 \<le> k \<Longrightarrow> k \<le> r + 1 \<Longrightarrow> r < int (length m) \<Longrightarrow>
   rank_on_host_loop m r h k
     = Inr (k + int (length (takeWhile (\<lambda>x. x = h) (rev (take (nat (r - k + 1)) m)))))"
proof (induction m r h k rule: rank_on_host_loop.induct)
  case (1 m rank host_rank rank_on_host)
  show ?case
  proof (cases "rank - rank_on_host \<ge> 0")
    case False
    then show ?thesis using "1.prems" by (subst rank_on_host_loop.simps) simp
  next
    case True
    let ?n = "nat (rank - rank_on_host)"
    have n: "?n < length m" using True "1.prems" by linarith
    have idx: "py_index m (rank - rank_on_host) = Inr (m ! ?n)"
      using True "1.prems" by (simp add: py_index_valid)
    have suc: "nat (rank - rank_on_host + 1) = Suc ?n" using True by linarith
    show ?thesis
    proof (cases "m ! ?n = host_rank")
      case False
      then show ?thesis using True idx n
        by (subst rank_on_host_loop.simps) (simp add: suc takeWhile_rev_take_Suc)
    next
      case eq: True
      have "rank_on_host_loop m rank host_rank (rank_on_host + 1)
            = Inr (rank_on_host + 1 + int (length (takeWhile (\<lambda>x. x = host_rank)
                (rev (take (nat (rank - (rank_on_host + 1) + 1)) m)))))"
        using "1.IH" [OF True idx eq] True "1.prems" by simp
      moreover have "nat (rank - (rank_on_host + 1) + 1) = ?n" by simp
      ultimately show ?thesis using True idx n eq
        by (subst rank_on_host_loop.simps) (simp add: suc takeWhile_rev_take_Suc)
    qed
  qed
qed

lemma get_rank_on_host_run:
  assumes "in_a_job st" "0 \<le> rank" "rank < int (length (rank_map st))"
  shows "get_rank_on_host st rank
    = Inr (int (length (takeWhile (\<lambda>x. x = rank_map st ! nat rank) (rev (take (nat rank) (rank_map st))))))"
proof -
  have n: "nat rank < length (rank_map st)" using assms by linarith
  have "rank_on_host_loop (rank_map st) rank (rank_map st ! nat rank) 0
     = Inr (0 + int (length (takeWhile (\<lambda>x. x = rank_map st ! nat rank) (rev (take (nat (rank - 0 + 1)) (rank_map st))))))"
    using assms by (intro rank_on_host_loop_run) auto
  moreover have "nat (rank - 0 + 1) = Suc (nat rank)" using assms by linarith
  ultimately show ?thesis using assms n
    by (simp add: get_rank_on_host_def only_in_a_job_def py_index_valid takeWhile_rev_take_Suc)
qed

lemma run_prefix:
  "x \<notin> set (dropWhile (\<lambda>y. y = x) xs) \<Longrightarrow> r < length xs \<Longrightarrow> xs ! r = x
   \<Longrightarrow> take (Suc r) xs = replicate (Suc r) x"
proof (induction xs arbitrary: r)
  case Nil
  then show ?case by simp
next
  case (Cons a as)
  show ?case
  proof (cases "a = x")
    case False
    then have "x \<notin> set (a # as)" using Cons.prems(1) by simp
    moreover have "x \<in> set (a # as)" using Cons.prems(2,3) nth_mem by metis
    ultimately show ?thesis by simp
  next
    case True
    show ?thesis
    proof (cases r)
      case 0
      then show ?thesis using True by simp
    next
      case (Suc r')
      then show ?thesis using True Cons.prems Cons.IH [of r'] by simp
    qed
  qed
qed

lemma contiguous_run:
  "contiguous m \<Longrightarrow> r < length m \<Longrightarrow>
   length (takeWhile (\<lambda>x. x = m ! r) (rev (take r m))) = length (filter (\<lambda>x. x = m ! r) (take r m))"
proof (induction m arbitrary: r)
  case Nil
  then show ?case by simp
next
  case (Cons x xs)
  show ?case
  proof (cases r)
    case 0
    then show ?thesis by simp
  next
    case (Suc r')
    then have r': "r' < length xs" using Cons.prems by simp
    have IH: "length (takeWhile (\<lambda>y. y = xs ! r') (rev (take r' xs)))
                = length (filter (\<lambda>y. y = xs ! r') (take r' xs))"
      using Cons.IH [of r'] Cons.prems r' by simp
    show ?thesis
    proof (cases "x = xs ! r'")
      case False
      then show ?thesis using Suc IH by (simp add: takeWhile_append)
    next
      case True
      have "take (Suc r') xs = replicate (Suc r') x"
        using Cons.prems True r' by (intro run_prefix) simp_all
      then have "take r' (take (Suc r') xs) = take r' (replicate (Suc r') x)" by (simp only:)
      moreover have "take r' (replicate (Suc r') x) = replicate r' x"
        by (simp only: take_replicate) simp
      ultimately have "take r' xs = replicate r' x" by simp
      then show ?thesis using Suc True by (simp add: takeWhile_append)
    qed
  qed
qed

text \<open>
  Claim C4. For a rank map with the contiguity invariant and a valid rank,
  \<open>get_rank_on_host\<close> returns the zero-based offset of the rank within the block of
  ranks of its node, that is the number of earlier ranks on the same node: 0 for the
  first task of a host, and one more than its predecessor for each further task of the
  same host. In the map \<open>[0,0,0,0,1,1,1,1,2,2]\<close> rank 5 has offset 1.
\<close>

theorem get_rank_on_host_offset:
  assumes "contiguous (rank_map st)" and "in_a_job st"
    and "0 \<le> rank" and "rank < int (length (rank_map st))"
  shows "get_rank_on_host st rank
           = Inr (int (length (filter (\<lambda>h. h = rank_map st ! nat rank) (take (nat rank) (rank_map st)))))
         \<and> (rank = 0 \<or> rank_map st ! nat (rank - 1) \<noteq> rank_map st ! nat rank
              \<longrightarrow> get_rank_on_host st rank = Inr 0)
         \<and> (0 < rank \<and> rank_map st ! nat (rank - 1) = rank_map st ! nat rank
              \<longrightarrow> (\<exists>k. get_rank_on_host st (rank - 1) = Inr k
                       \<and> get_rank_on_host st rank = Inr (k + 1)))"
proof -
  let ?m = "rank_map st"
  have n: "nat rank < length ?m" using assms by linarith
  have run: "get_rank_on_host st rank
      = Inr (int (length (takeWhile (\<lambda>x. x = ?m ! nat rank) (rev (take (nat rank) ?m)))))"
    using assms(2-4) by (rule get_rank_on_host_run)
  have offset: "get_rank_on_host st rank
      = Inr (int (length (filter (\<lambda>h. h = ?m ! nat rank) (take (nat rank) ?m))))"
    using run contiguous_run [OF assms(1) n] by simp
  have first: "get_rank_on_host st rank = Inr 0"
    if "rank = 0 \<or> ?m ! nat (rank - 1) \<noteq> ?m ! nat rank"
  proof (cases "rank = 0")
    case True
    then show ?thesis using run by simp
  next
    case False
    then have pos: "0 < rank" using assms(3) by simp
    then have suc: "nat rank = Suc (nat (rank - 1))" by linarith
    have "nat (rank - 1) < length ?m" using n suc by simp
    then have "takeWhile (\<lambda>x. x = ?m ! nat rank) (rev (take (Suc (nat (rank - 1))) ?m)) = []"
      using that False by (simp add: takeWhile_rev_take_Suc)
    then show ?thesis using run suc by simp
  qed
  have succ: "\<exists>k. get_rank_on_host st (rank - 1) = Inr k \<and> get_rank_on_host st rank = Inr (k + 1)"
    if "0 < rank \<and> ?m ! nat (rank - 1) = ?m ! nat rank"
  proof -
    have suc: "nat rank = Suc (nat (rank - 1))" using that by linarith
    have lt: "nat (rank - 1) < length ?m" using n suc by simp
    have prev: "get_rank_on_host st (rank - 1)
      = Inr (int (length (takeWhile (\<lambda>x. x = ?m ! nat (rank - 1)) (rev (take (nat (rank - 1)) ?m)))))"
      using assms that by (intro get_rank_on_host_run) auto
    have "takeWhile (\<lambda>x. x = ?m ! nat rank) (rev (take (Suc (nat (rank - 1))) ?m))
          = ?m ! nat (rank - 1) # takeWhile (\<lambda>x. x = ?m ! nat rank) (rev (take (nat (rank - 1)) ?m))"
      using lt that by (simp add: takeWhile_rev_take_Suc)
    then have "get_rank_on_host st rank
      = Inr (int (length (takeWhile (\<lambda>x. x = ?m ! nat (rank - 1)) (rev (take (nat (rank - 1)) ?m)))) + 1)"
      using run suc that by simp
    then show ?thesis using prev by blast
  qed
  show ?thesis using offset first succ by blast
qed

theorem get_rank_on_host_offset_witness:
  "contiguous [0, 0, 0, 0, 1, 1, 1, 1, 2, 2]
   \<and> in_a_job example_state
   \<and> get_rank_on_host (example_state\<lparr>rank_map := [0, 0, 0, 0, 1, 1, 1, 1, 2, 2]\<rparr>) 5 = Inr 1
   \<and> get_rank_on_host (example_state\<lparr>rank_map := [0, 0, 0, 0, 1, 1, 1, 1, 2, 2]\<rparr>) 4 = Inr 0"
  using get_rank_on_host_offset [of "example_state\<lparr>rank_map := [0, 0, 0, 0, 1, 1, 1, 1, 2, 2]\<rparr>" 5]
        get_rank_on_host_offset [of "example_state\<lparr>rank_map := [0, 0, 0, 0, 1, 1, 1, 1, 2, 2]\<rparr>" 4]
  by (simp add: example_state_def in_a_job_def)

section \<open>Building the rank map\<close>

lemma split_comma_no_comma: "CHR '','' \<notin> set p \<Longrightarrow> split_comma p = [p]"
  by (induction p) auto

lemma split_comma_append:
  "CHR '','' \<notin> set p \<Longrightarrow> split_comma (p @ CHR '','' # s) = p # split_comma s"
  by (induction p) auto

lemma is_digit_simps:
  "is_digit c \<Longrightarrow> c \<noteq> CHR '',''" "is_digit c \<Longrightarrow> \<not> is_space c"
  "is_digit c \<Longrightarrow> c \<noteq> CHR ''-''" "is_digit c \<Longrightarrow> c \<noteq> CHR ''+''"
  "\<not> is_digit CHR ''(''" "\<not> is_digit CHR '')''"
  by (auto simp: is_digit_def is_space_def)

lemma is_number_no_comma: "is_number ds \<Longrightarrow> CHR '','' \<notin> set ds"
  by (auto simp: is_number_def list_all_iff dest: is_digit_simps(1))

lemma render_block_no_comma: "valid_block b \<Longrightarrow> CHR '','' \<notin> set (render_block b)"
  by (cases b) (auto dest: is_number_no_comma)

lemma split_render:
  "blocks \<noteq> [] \<Longrightarrow> list_all valid_block blocks
   \<Longrightarrow> split_comma (render blocks) = map render_block blocks"
proof (induction blocks rule: render.induct)
  case 1
  then show ?case by simp
next
  case (2 b)
  then show ?case by (simp add: split_comma_no_comma render_block_no_comma)
next
  case (3 b b' bs)
  then show ?case by (simp add: split_comma_append render_block_no_comma)
qed

lemma py_int_number: "is_number ds \<Longrightarrow> py_int ds = Inr (int (dec_val ds))"
proof -
  assume n: "is_number ds"
  then obtain x xs where ds: "ds = x # xs" by (cases ds) (auto simp: is_number_def)
  have all: "\<And>c. c \<in> set ds \<Longrightarrow> is_digit c" using n by (auto simp: is_number_def list_all_iff)
  have x: "is_digit x" using all ds by simp
  have d1: "dropWhile is_space ds = ds" using x ds by (simp add: is_digit_simps)
  have tw: "takeWhile is_digit xs = xs" using all ds by (simp add: takeWhile_eq_all_conv)
  have dw: "dropWhile is_digit xs = []" using all ds by simp
  show ?thesis
    using x by (simp add: py_int_def Let_def ds tw dw is_digit_simps)
qed

lemma dropWhile_list_all: "list_all P xs \<Longrightarrow> dropWhile P xs = []"
  by (simp add: list_all_iff)

lemma match_here_digits: "list_all is_digit s \<Longrightarrow> match_here s = None"
  by (simp add: match_here_def Let_def dropWhile_list_all)

lemma re_search_digits: "list_all is_digit s \<Longrightarrow> re_search s = None"
  by (induction s) (simp_all add: match_here_digits)

lemma match_here_compressed:
  assumes "is_number c" "is_number n"
  shows "match_here (c @ ''(x'' @ n @ '')'') = Some (c, n)"
proof -
  have c: "\<And>x. x \<in> set c \<Longrightarrow> is_digit x" and n: "\<And>x. x \<in> set n \<Longrightarrow> is_digit x"
    using assms by (auto simp: is_number_def list_all_iff)
  have t1: "takeWhile is_digit (c @ ''(x'' @ n @ '')'') = c"
    using c by (simp add: takeWhile_append2 is_digit_simps)
  have d1: "dropWhile is_digit (c @ ''(x'' @ n @ '')'') = ''(x'' @ n @ '')''"
    using c by (simp add: dropWhile_append2 is_digit_simps)
  have t2: "takeWhile is_digit (n @ '')'') = n"
    using n by (simp add: takeWhile_append2 is_digit_simps)
  have d2: "dropWhile is_digit (n @ '')'') = '')''"
    using n by (simp add: dropWhile_append2 is_digit_simps)
  show ?thesis
    unfolding match_here_def Let_def t1 d1
    using assms t2 d2 by (simp add: is_number_def is_digit_simps)
qed

lemma re_search_compressed:
  assumes "is_number c" "is_number n"
  shows "re_search (c @ CHR ''('' # CHR ''x'' # n @ '')'') = Some (c, n)"
proof -
  obtain x xs where "c = x # xs" using assms(1) by (cases c) (auto simp: is_number_def)
  then show ?thesis using match_here_compressed [OF assms] by simp
qed

lemma parse_node_def_block:
  "valid_block b \<Longrightarrow> parse_node_def (render_block b)
     = (case b of Bare c \<Rightarrow> Inr (int (dec_val c), 1)
        | Compressed c n \<Rightarrow> Inr (int (dec_val c), int (dec_val n)))"
  by (cases b)
     (simp_all add: parse_node_def_def re_search_digits re_search_compressed py_int_number
        is_number_def)

lemma append_nodes_spec:
  "append_nodes k n (int i) rm = (int (i + k), rm @ expand_spec i (replicate k n))"
proof (induction k arbitrary: i rm)
  case 0
  then show ?case by simp
next
  case (Suc k)
  have "append_nodes (Suc k) n (int i) rm = append_nodes k n (int (Suc i)) (rm @ replicate n (int i))"
    by (simp add: add.commute)
  then show ?case using Suc [of "Suc i" "rm @ replicate n (int i)"] by simp
qed

lemma expand_spec_append:
  "expand_spec i (xs @ ys) = expand_spec i xs @ expand_spec (i + length xs) ys"
  by (induction xs arbitrary: i) simp_all

lemma length_expand_spec: "length (expand_spec i ns) = sum_list ns"
  by (induction ns arbitrary: i) simp_all

lemma build_blocks_spec:
  "list_all valid_block blocks \<Longrightarrow>
   build_blocks (map render_block blocks) (int i) rm
     = (Inr (), rm @ expand_spec i (node_counts blocks))"
proof (induction blocks arbitrary: i rm)
  case Nil
  then show ?case by (simp add: node_counts_def)
next
  case (Cons b bs)
  then have vb: "valid_block b" and vbs: "list_all valid_block bs" by simp_all
  show ?case
  proof (cases b)
    case (Bare c)
    have "build_blocks (map render_block bs) (int i + 1) (rm @ replicate (dec_val c) (int i))
            = (Inr (), (rm @ replicate (dec_val c) (int i)) @ expand_spec (Suc i) (node_counts bs))"
      using Cons.IH [OF vbs, of "Suc i"] by (simp add: add.commute)
    then show ?thesis
      using Bare vb parse_node_def_block [OF vb]
      by (simp add: node_counts_def)
  next
    case (Compressed c n)
    show ?thesis
      using Compressed vb Cons.IH [OF vbs, of "i + dec_val n"] parse_node_def_block [OF vb]
      by (simp add: node_counts_def append_nodes_spec expand_spec_append)
  qed
qed


lemma rank_map_generate_password:
  "generate_password p st = (r, st') \<Longrightarrow> rank_map st' = rank_map st"
  by (auto simp: generate_password_def os_mkdir_def os_urandom_def os_open_def os_write_def
        os_close_def called_def Let_def split: option.splits prod.splits sum.splits if_splits)

lemma rank_map_init_password:
  "init_password st = (r, st') \<Longrightarrow> rank_map st' = rank_map st"
  by (auto simp: init_password_def warn_loose_def os_stat_def file_read_def called_def Let_def
        split: sum.splits prod.splits if_splits dest: rank_map_generate_password)

lemma rank_map_get_credential:
  "get_credential st = (r, st') \<Longrightarrow> rank_map st' = rank_map st"
  by (auto simp: get_credential_def split: auth_type.splits sum.splits option.splits prod.splits
        dest: rank_map_init_password)

lemma rank_map_get_keyval_client:
  "get_keyval_client st = (r, st') \<Longrightarrow> rank_map st' = rank_map st"
  by (auto simp: get_keyval_client_def now_def Let_def
        split: sum.splits option.splits prod.splits dest: rank_map_get_credential)

lemma rank_map_try_renew_credential:
  "try_renew_credential k p st = (r, st') \<Longrightarrow> rank_map st' = rank_map st"
  by (auto simp: try_renew_credential_def now_def Let_def
        split: sum.splits option.splits prod.splits if_splits dest: rank_map_get_credential)

lemma rank_map_client_call:
  "client_call req st = Some (r, st') \<Longrightarrow> rank_map st' = rank_map st"
  by (auto simp: client_call_def Let_def
        split: sum.splits list.splits prod.splits response.splits dest: rank_map_get_keyval_client)

lemma rank_map_retry_on_cred_expiry:
  assumes "\<And>s r s'. func s = Some (r, s') \<Longrightarrow> rank_map s' = rank_map s"
  shows "retry_on_cred_expiry fuel func st = Some (r, st') \<Longrightarrow> rank_map st' = rank_map st"
proof (induction fuel arbitrary: st)
  case 0
  then show ?case by simp
next
  case (Suc fuel)
  from Suc.prems show ?case
    by (auto split: option.splits sum.splits prod.splits error.splits)
       (metis assms rank_map_try_renew_credential Suc.IH)+
qed

lemma rank_map_write_key:
  "write_key fuel key_type key v st = Some (r, st') \<Longrightarrow> rank_map st' = rank_map st"
  unfolding write_key_def
  by (erule rank_map_retry_on_cred_expiry [rotated])
     (auto simp: write_request_def split: sum.splits dest: rank_map_client_call)


text \<open>
  Claim C1. For every valid distribution string (blocks separated by commas, each a bare
  task count or a compressed \<^verbatim>\<open>count(xN)\<close>), the builder expands the blocks from left to
  right and appends the current node index once per task of that node: the rank map
  has one entry per task rank, the rank of its node. The string comes as the argument
  or from \<^verbatim>\<open>SLURM_TASKS_PER_NODE\<close>. The string \<^verbatim>\<open>4(x2),2\<close> gives
  \<open>[0,0,0,0,1,1,1,1,2,2]\<close>.
\<close>

theorem build_rank_map_expands:
  assumes "blocks \<noteq> []" and "list_all valid_block blocks"
    and "in_a_job st" and "rank_map st = []"
    and "(if truthy tasks_per_node then tasks_per_node else environ st ''SLURM_TASKS_PER_NODE'')
           = Some (render blocks)"
  shows "build_blocks (split_comma (render blocks)) 0 [] = (Inr (), expand_spec 0 (node_counts blocks))
         \<and> length (expand_spec 0 (node_counts blocks)) = sum_list (node_counts blocks)
         \<and> (\<not> (proc_type st = SETUP \<and> node_rank st = 0) \<longrightarrow>
              build_rank_map yaml_dump fuel tasks_per_node st
                = Some (Inr (), st\<lparr>rank_map := expand_spec 0 (node_counts blocks)\<rparr>))
         \<and> (\<forall>r st'. build_rank_map yaml_dump fuel tasks_per_node st = Some (r, st')
              \<longrightarrow> rank_map st' = expand_spec 0 (node_counts blocks))"
proof -
  have blocks: "build_blocks (split_comma (render blocks)) 0 []
                  = (Inr (), expand_spec 0 (node_counts blocks))"
    using build_blocks_spec [OF assms(2), of 0 "[]"] split_render [OF assms(1,2)] by simp
  have plain: "build_rank_map yaml_dump fuel tasks_per_node st
                 = Some (Inr (), st\<lparr>rank_map := expand_spec 0 (node_counts blocks)\<rparr>)"
    if "\<not> (proc_type st = SETUP \<and> node_rank st = 0)"
    using that assms(3-5) blocks by (auto simp: build_rank_map_def only_in_a_job_def)
  have any: "rank_map st' = expand_spec 0 (node_counts blocks)"
    if run: "build_rank_map yaml_dump fuel tasks_per_node st = Some (r, st')" for r st'
  proof (cases "proc_type st = SETUP \<and> node_rank st = 0")
    case False
    then show ?thesis using plain run by auto
  next
    case True
    then obtain w where "write_key fuel ''cluster'' ''rank_map''
          (Some (yaml_dump (expand_spec 0 (node_counts blocks))))
          (st\<lparr>rank_map := expand_spec 0 (node_counts blocks)\<rparr>) = Some (w, st')"
      using run assms(3-5) blocks
      by (auto simp: build_rank_map_def only_in_a_job_def Let_def
            split: option.splits sum.splits prod.splits)
    then show ?thesis using rank_map_write_key by fastforce
  qed
  show ?thesis using blocks plain any by (simp add: length_expand_spec)
qed

theorem build_rank_map_expands_witness:
  "render [Compressed ''4'' ''2'', Bare ''2''] = ''4(x2),2''
   \<and> list_all valid_block [Compressed ''4'' ''2'', Bare ''2'']
   \<and> build_blocks (split_comma ''4(x2),2'') 0 [] = (Inr (), [0, 0, 0, 0, 1, 1, 1, 1, 2, 2])
   \<and> build_rank_map yaml_dump_flow 1 (Some ''4(x2),2'') example_state
       = Some (Inr (), example_state\<lparr>rank_map := [0, 0, 0, 0, 1, 1, 1, 1, 2, 2]\<rparr>)
   \<and> build_rank_map yaml_dump_flow 1 None
         (example_state\<lparr>environ := [''SLURM_TASKS_PER_NODE'' \<mapsto> ''4(x2),2'']\<rparr>)
       = Some (Inr (), example_state\<lparr>environ := [''SLURM_TASKS_PER_NODE'' \<mapsto> ''4(x2),2''],
                          rank_map := [0, 0, 0, 0, 1, 1, 1, 1, 2, 2]\<rparr>)"
proof -
  let ?bs = "[Compressed ''4'' ''2'', Bare ''2'']"
  let ?st = "example_state\<lparr>environ := [''SLURM_TASKS_PER_NODE'' \<mapsto> ''4(x2),2'']\<rparr>"
  have r: "render ?bs = ''4(x2),2''" by simp
  have ne: "?bs \<noteq> []" by simp
  have v: "list_all valid_block ?bs" by (simp add: is_number_def is_digit_def)
  have e: "expand_spec 0 (node_counts ?bs) = [0, 0, 0, 0, 1, 1, 1, 1, 2, 2]"
    by (simp add: node_counts_def dec_val_def digit_val_def eval_nat_numeral)
  have j: "in_a_job example_state" "in_a_job ?st" by (simp_all add: example_state_def in_a_job_def)
  have m: "rank_map example_state = []" "rank_map ?st = []" by (simp_all add: example_state_def)
  have t1: "(if truthy (Some ''4(x2),2'') then Some ''4(x2),2''
             else environ example_state ''SLURM_TASKS_PER_NODE'') = Some (render ?bs)"
    by (simp add: truthy_def)
  have t2: "(if truthy None then None else environ ?st ''SLURM_TASKS_PER_NODE'') = Some (render ?bs)"
    by (simp add: truthy_def)
  have nz: "\<not> (proc_type example_state = SETUP \<and> node_rank example_state = 0)"
           "\<not> (proc_type ?st = SETUP \<and> node_rank ?st = 0)"
    by (simp_all add: example_state_def)
  show ?thesis
    using build_rank_map_expands [OF ne v j(1) m(1) t1, of yaml_dump_flow 1]
          build_rank_map_expands [OF ne v j(2) m(2) t2, of yaml_dump_flow 1]
          nz v
    by (simp only: e r) simp
qed


section \<open>Single steps of the store operations\<close>

text \<open>With the connection open, a call takes the head of the script.\<close>

lemma client_call_open:
  "keyval_client st = Some c \<Longrightarrow> etcd_script st = r # rs \<Longrightarrow>
   client_call req st
     = Some (case r of Returns x \<Rightarrow> Inr x | Raises k p \<Rightarrow> Inl (EtcdException k p), sent req st)"
  by (simp add: client_call_def get_keyval_client_def sent_def Let_def split: response.splits)

lemma client_call_blocked:
  "keyval_client st = Some c \<Longrightarrow> etcd_script st = [] \<Longrightarrow> client_call req st = None"
  by (simp add: client_call_def get_keyval_client_def)

lemma sent_fields [simp]:
  "keyval_client (sent req st) = keyval_client st"
  "etcd_script (sent req st) = tl (etcd_script st)"
  "etcd_log (sent req st) = etcd_log st @ [req]"
  "rank_map (sent req st) = rank_map st"
  "last_cred_renew (sent req st) = last_cred_renew st"
  "clock (sent req st) = clock st"
  "clock_reads (sent req st) = clock_reads st"
  "get_key_path (sent req st) = get_key_path st"
  by (simp_all add: sent_def get_key_path_def only_in_a_job_def in_a_job_def fun_eq_iff)

lemma retry_returns:
  "func st = Some (Inr v, st') \<Longrightarrow> retry_on_cred_expiry (Suc n) func st = Some (Inr v, st')"
  by simp

lemma retry_blocked:
  "func st = None \<Longrightarrow> retry_on_cred_expiry (Suc n) func st = None"
  by simp

lemma retry_raises_other:
  "func st = Some (Inl e, st') \<Longrightarrow> \<forall>k p. e \<noteq> EtcdException k p
   \<Longrightarrow> retry_on_cred_expiry (Suc n) func st = Some (Inl e, st')"
  by (cases e) simp_all

lemma retry_raises_etcd:
  "func st = Some (Inl (EtcdException k p), st') \<Longrightarrow> \<not> cred_expired p
   \<Longrightarrow> retry_on_cred_expiry (Suc n) func st = Some (Inl (EtcdException k p), st')"
  by (simp add: try_renew_credential_def)


lemma read_key_index_found:
  assumes "keyval_client st = Some c" "get_key_path st key_type key = Inr path"
    and "etcd_script st = Returns res # rest"
  shows "read_key_index (Suc n) key_type key realindex st
     = Some (Inr (res_value res,
               if realindex then modifiedIndex res else max (modifiedIndex res) (etcd_index res)),
             sent (Read path False) st)"
  using assms
  by (simp add: read_key_index_def read_key_index_body_def client_call_open)

lemma read_key_index_absent:
  assumes "keyval_client st = Some c" "get_key_path st key_type key = Inr path"
    and "etcd_script st = Raises EtcdKeyNotFound (Some d) # rest" and "d ''index'' = Some i"
  shows "read_key_index (Suc n) key_type key realindex st
     = Some (Inr (None, i), sent (Read path False) st)"
  using assms
  by (simp add: read_key_index_def read_key_index_body_def client_call_open payload_index_def)



lemma write_key_done:
  assumes "keyval_client st = Some c" "get_key_path st key_type key = Inr path"
    and "etcd_script st = Returns res # rest"
  shows "write_key (Suc n) key_type key v st = Some (Inr res, sent (Write path v None None) st)"
  using assms by (simp add: write_key_def write_request_def client_call_open)

lemma wait_key_index_changed:
  assumes "keyval_client st = Some c" "get_key_path st key_type key = Inr path"
    and "etcd_script st = Returns res # rest"
  shows "wait_key_index (Suc n) key_type key index timeout st
     = Some (Inr (Some res, max (modifiedIndex res) (etcd_index res)),
             sent (Watch path (index + 1) timeout) st)"
  using assms by (simp add: wait_key_index_def wait_key_index_body_def client_call_open)


lemma wait_key_index_cleared:
  assumes "keyval_client st = Some c" "get_key_path st key_type key = Inr path"
    and "etcd_script st = Raises EtcdEventIndexCleared (Some d) # rest" and "d ''index'' = Some i"
  shows "wait_key_index (Suc n) key_type key index timeout st
     = Some (Inr (None, i), sent (Watch path (index + 1) timeout) st)"
  using assms
  by (simp add: wait_key_index_def wait_key_index_body_def client_call_open payload_index_def)

lemma wait_key_index_cluster_id:
  assumes "keyval_client st = Some c" "get_key_path st key_type key = Inr path"
    and "etcd_script st = Raises EtcdClusterIdChanged p # rest"
  shows "wait_key_index (Suc n) key_type key index timeout st
     = Some (Inl (UnboundLocalError ''e''), sent (Watch path (index + 1) timeout) st)"
  using assms by (simp add: wait_key_index_def wait_key_index_body_def client_call_open)

lemma wait_key_index_blocked:
  assumes "keyval_client st = Some c" "get_key_path st key_type key = Inr path"
    and "etcd_script st = []"
  shows "wait_key_index (Suc n) key_type key index timeout st = None"
  using assms by (simp add: wait_key_index_def wait_key_index_body_def client_call_blocked)


section \<open>Atomic update\<close>

text \<open>
  Claim C5. If the key does not exist and the transform returns \<open>(None, result)\<close>,
  \<open>atom_update_key\<close> returns \<open>result\<close> and sends no write: it ends in the state that the
  read left, where the only request sent is that read.
\<close>

theorem atom_update_key_absent_none:
  "(read_key_index (Suc fuel) key_type key True st = Some (Inr (None, index), st1)
      \<and> func None = (None, result)
      \<longrightarrow> atom_update_key (Suc fuel) key_type key func st = Some (Inr result, st1))
   \<and> (keyval_client sa = Some c \<and> get_key_path sa key_type key = Inr path
      \<and> etcd_script sa = Raises EtcdKeyNotFound (Some d) # rest \<and> d ''index'' = Some i
      \<and> func None = (None, result)
      \<longrightarrow> atom_update_key (Suc fuel) key_type key func sa
            = Some (Inr result, sa\<lparr>etcd_script := rest, etcd_log := etcd_log sa @ [Read path False]\<rparr>))"
proof -
  have general: "atom_update_key (Suc fuel) key_type key func s = Some (Inr result, s1)"
    if "read_key_index (Suc fuel) key_type key True s = Some (Inr (None, j), s1)"
      and "func None = (None, result)" for s s1 j
    using that by (simp add: atom_update_key_def atom_update_key_pass_def)
  have "read_key_index (Suc fuel) key_type key True sa = Some (Inr (None, i), sent (Read path False) sa)"
    if "keyval_client sa = Some c" "get_key_path sa key_type key = Inr path"
      "etcd_script sa = Raises EtcdKeyNotFound (Some d) # rest" "d ''index'' = Some i"
    using that by (rule read_key_index_absent)
  then show ?thesis using general by (auto simp: sent_def)
qed

theorem atom_update_key_absent_none_witness:
  "atom_update_key 1 ''cluster/user'' ''lock'' (\<lambda>v. (None, ''nothing''))
     (example_state\<lparr>etcd_script := [Raises EtcdKeyNotFound (Some [''index'' \<mapsto> 12])]\<rparr>)
   = Some (Inr ''nothing'',
           example_state\<lparr>etcd_script := [],
             etcd_log := [Read ''/pcocc/cluster/users/alice/7/lock'' False]\<rparr>)"
proof -
  let ?st = "example_state\<lparr>etcd_script := [Raises EtcdKeyNotFound (Some [''index'' \<mapsto> 12])]\<rparr>"
  have c: "keyval_client ?st = Some (Client (Some ''00112233445566778899aabbccddeeff''))"
    by (simp add: example_state_def)
  have p: "get_key_path ?st ''cluster/user'' ''lock'' = Inr ''/pcocc/cluster/users/alice/7/lock''"
    by (simp add: example_state_def get_key_path_def only_in_a_job_def in_a_job_def str_int_def
          digit_char_def)
  have s: "etcd_script ?st = [Raises EtcdKeyNotFound (Some [''index'' \<mapsto> 12])]" by simp
  have l: "etcd_log ?st = []" by (simp add: example_state_def)
  show ?thesis
    using atom_update_key_absent_none [of 0 "''cluster/user''" "''lock''" ?st 12
        "sent (Read ''/pcocc/cluster/users/alice/7/lock'' False) ?st" "\<lambda>v. (None, ''nothing'')"
        "''nothing''" ?st "Client (Some ''00112233445566778899aabbccddeeff'')"
        "''/pcocc/cluster/users/alice/7/lock''" "[''index'' \<mapsto> 12]" "[]" 12]
      c p s l
    by simp
qed


section \<open>Waiting for a key\<close>

lemma example_paths:
  "get_key_path (example_state\<lparr>etcd_script := s\<rparr>) ''cluster'' ''rank_map'' = Inr ''/pcocc/cluster/7/rank_map''"
  by (simp add: example_state_def get_key_path_def only_in_a_job_def in_a_job_def str_int_def
        digit_char_def)

lemma example_client:
  "keyval_client (example_state\<lparr>etcd_script := s\<rparr>) = Some (Client (Some ''00112233445566778899aabbccddeeff''))"
  by (simp add: example_state_def)

text \<open>
  Claim C7. When a blocking wait is told that the requested index is no longer retained
  or that the cluster identity changed, \<open>wait_key_index\<close> should return \<open>None\<close> with the
  index of the store. The code does so for \<^verbatim>\<open>EtcdEventIndexCleared\<close>. For
  \<^verbatim>\<open>EtcdClusterIdChanged\<close> the handler reads the unbound variable \<^verbatim>\<open>e\<close>: the call raises
  \<open>UnboundLocalError\<close>, and a blocking \<open>read_key\<close> passes it to its caller.
\<close>

theorem wait_key_index_cluster_id_changed_raises:
  "wait_key_index 1 ''cluster'' ''rank_map'' 5 0
     (example_state\<lparr>etcd_script := [Raises EtcdClusterIdChanged (Some [''index'' \<mapsto> 9])]\<rparr>)
   = Some (Inl (UnboundLocalError ''e''),
           example_state\<lparr>etcd_script := [], etcd_log := [Watch ''/pcocc/cluster/7/rank_map'' 6 0]\<rparr>)
   \<and> wait_key_index 1 ''cluster'' ''rank_map'' 5 0
     (example_state\<lparr>etcd_script := [Raises EtcdEventIndexCleared (Some [''index'' \<mapsto> 9])]\<rparr>)
   = Some (Inr (None, 9),
           example_state\<lparr>etcd_script := [], etcd_log := [Watch ''/pcocc/cluster/7/rank_map'' 6 0]\<rparr>)
   \<and> read_key 1 ''cluster'' ''rank_map'' True 0
     (example_state\<lparr>etcd_script := [Raises EtcdKeyNotFound (Some [''index'' \<mapsto> 5]),
                                      Raises EtcdClusterIdChanged (Some [''index'' \<mapsto> 9])]\<rparr>)
   = Some (Inl (UnboundLocalError ''e''),
           example_state\<lparr>etcd_script := [],
             etcd_log := [Read ''/pcocc/cluster/7/rank_map'' False,
                          Watch ''/pcocc/cluster/7/rank_map'' 6 0]\<rparr>)"
proof -
  let ?p = "''/pcocc/cluster/7/rank_map''"
  let ?s1 = "example_state\<lparr>etcd_script := [Raises EtcdClusterIdChanged (Some [''index'' \<mapsto> 9])]\<rparr>"
  let ?s2 = "example_state\<lparr>etcd_script := [Raises EtcdEventIndexCleared (Some [''index'' \<mapsto> 9])]\<rparr>"
  let ?s3 = "example_state\<lparr>etcd_script := [Raises EtcdKeyNotFound (Some [''index'' \<mapsto> 5]),
                                      Raises EtcdClusterIdChanged (Some [''index'' \<mapsto> 9])]\<rparr>"
  have l: "etcd_log example_state = []" by (simp add: example_state_def)
  have a: "wait_key_index 1 ''cluster'' ''rank_map'' 5 0 ?s1
             = Some (Inl (UnboundLocalError ''e''), sent (Watch ?p (5 + 1) 0) ?s1)"
    unfolding One_nat_def
    by (rule wait_key_index_cluster_id [where rest = "[]", OF example_client example_paths]) simp
  have b: "wait_key_index 1 ''cluster'' ''rank_map'' 5 0 ?s2
             = Some (Inr (None, 9), sent (Watch ?p (5 + 1) 0) ?s2)"
    unfolding One_nat_def
    by (rule wait_key_index_cleared [where d = "[''index'' \<mapsto> 9]" and rest = "[]",
          OF example_client example_paths]) simp_all
  have r: "read_key_index 1 ''cluster'' ''rank_map'' False ?s3
             = Some (Inr (None, 5), sent (Read ?p False) ?s3)"
    unfolding One_nat_def
    by (rule read_key_index_absent [where d = "[''index'' \<mapsto> 5]"
          and rest = "[Raises EtcdClusterIdChanged (Some [''index'' \<mapsto> 9])]",
          OF example_client example_paths]) simp_all
  have s3: "sent (Read ?p False) ?s3 = example_state\<lparr>etcd_script :=
              [Raises EtcdClusterIdChanged (Some [''index'' \<mapsto> 9])], etcd_log := [Read ?p False]\<rparr>"
    by (simp add: sent_def l)
  have w: "wait_key_index 1 ''cluster'' ''rank_map'' 5 0 (sent (Read ?p False) ?s3)
             = Some (Inl (UnboundLocalError ''e''), sent (Watch ?p (5 + 1) 0) (sent (Read ?p False) ?s3))"
    unfolding One_nat_def
    by (rule wait_key_index_cluster_id [where p = "Some [''index'' \<mapsto> 9]" and rest = "[]"])
       (simp_all add: example_client example_paths s3 example_state_def get_key_path_def
          only_in_a_job_def in_a_job_def str_int_def digit_char_def)
  have c: "read_key 1 ''cluster'' ''rank_map'' True 0 ?s3
             = Some (Inl (UnboundLocalError ''e''), sent (Watch ?p (5 + 1) 0) (sent (Read ?p False) ?s3))"
    using r w by (simp add: read_key_def truthy_def)
  show ?thesis
    unfolding a b c by (simp add: sent_def l)
qed


section \<open>Reading a key\<close>

lemma get_key_path_etcd_script [simp]:
  "get_key_path (st\<lparr>etcd_script := x\<rparr>) = get_key_path st"
  by (simp add: fun_eq_iff get_key_path_def only_in_a_job_def in_a_job_def)




section \<open>Waiting for a number of children\<close>













section \<open>Credential renewal\<close>

lemma try_renew_not_expired:
  "\<not> cred_expired p \<Longrightarrow> try_renew_credential k p st = (Inl (EtcdException k p), st)"
  by (simp add: try_renew_credential_def)

lemma try_renew_cooldown:
  assumes "cred_expired p" and "last_cred_renew st = Some last_renew"
    and "clock st (clock_reads st) - last_renew \<le> cooldown"
  shows "try_renew_credential k p st
           = (Inl (KeyCredentialError ''access denied''), st\<lparr>clock_reads := Suc (clock_reads st)\<rparr>)"
  using assms by (simp add: try_renew_credential_def now_def)

lemma try_renew_renews:
  assumes "cred_expired p" and "last_cred_renew st = Some last_renew"
    and "clock st (clock_reads st) - last_renew > cooldown"
    and "get_credential (st\<lparr>clock_reads := Suc (Suc (clock_reads st)),
                            last_cred_renew := Some (clock st (Suc (clock_reads st)))\<rparr>) = (Inr cred, st')"
    and "keyval_client st' = Some c"
  shows "try_renew_credential k p st = (Inr (), st'\<lparr>keyval_client := Some (Client cred)\<rparr>)"
  using assms by (simp add: try_renew_credential_def now_def)

lemma get_credential_cached:
  "etcd_auth_type st = Password \<Longrightarrow> etcd_password st = Some pw
   \<Longrightarrow> get_credential st = (Inr (Some pw), st)"
  by (simp add: get_credential_def)

lemma get_credential_munge:
  "etcd_auth_type st = Munge \<Longrightarrow> munge st (munge_calls st) = Inr out
   \<Longrightarrow> get_credential st = (Inr (Some out), st\<lparr>munge_calls := Suc (munge_calls st)\<rparr>)"
  by (simp add: get_credential_def)

lemma last_cred_renew_generate_password:
  "generate_password p st = (r, st') \<Longrightarrow> last_cred_renew st' = last_cred_renew st"
  by (auto simp: generate_password_def os_mkdir_def os_urandom_def os_open_def os_write_def
        os_close_def called_def Let_def split: option.splits prod.splits sum.splits if_splits)

lemma last_cred_renew_init_password:
  "init_password st = (r, st') \<Longrightarrow> last_cred_renew st' = last_cred_renew st"
  by (auto simp: init_password_def warn_loose_def os_stat_def file_read_def called_def Let_def
        split: sum.splits prod.splits if_splits dest: last_cred_renew_generate_password)

lemma last_cred_renew_get_credential:
  "get_credential st = (r, st') \<Longrightarrow> last_cred_renew st' = last_cred_renew st"
  by (auto simp: get_credential_def split: auth_type.splits sum.splits option.splits prod.splits
        dest: last_cred_renew_init_password)

text \<open>
  Claim C3. When a store operation fails with a signal that the credential expired
  (\<^verbatim>\<open>errorCode\<close> or \<^verbatim>\<open>error_code\<close> 110, or \<^verbatim>\<open>status\<close> 401), the wrapper renews only if more
  than 15 seconds passed since the last renewal: it resets the timer, fetches a credential,
  stores it in the connection and runs the operation again. Within the 15 seconds it
  raises \<open>KeyCredentialError\<close> and renews nothing; this is what happens to a second
  failure that follows a renewal too closely, and once the 15 seconds are over a renewal
  succeeds again. A store error without the signal is raised again as it is.
\<close>

theorem credential_renewal:
  assumes "func st0 = Some (Inl (EtcdException k p), st)"
    and "last_cred_renew st = Some last_renew"
  shows "(cred_expired p \<and> clock st (clock_reads st) - last_renew > cooldown
            \<and> get_credential (st\<lparr>clock_reads := Suc (Suc (clock_reads st)),
                  last_cred_renew := Some (clock st (Suc (clock_reads st)))\<rparr>) = (Inr cred, st')
            \<and> keyval_client st' = Some c
          \<longrightarrow> try_renew_credential k p st = (Inr (), st'\<lparr>keyval_client := Some (Client cred)\<rparr>)
              \<and> last_cred_renew st' = Some (clock st (Suc (clock_reads st)))
              \<and> retry_on_cred_expiry (Suc fuel) func st0
                  = retry_on_cred_expiry fuel func (st'\<lparr>keyval_client := Some (Client cred)\<rparr>))
       \<and> (cred_expired p \<and> clock st (clock_reads st) - last_renew \<le> cooldown
          \<longrightarrow> try_renew_credential k p st
                = (Inl (KeyCredentialError ''access denied''), st\<lparr>clock_reads := Suc (clock_reads st)\<rparr>)
              \<and> retry_on_cred_expiry (Suc fuel) func st0
                = Some (Inl (KeyCredentialError ''access denied''),
                        st\<lparr>clock_reads := Suc (clock_reads st)\<rparr>))
       \<and> (\<not> cred_expired p
          \<longrightarrow> try_renew_credential k p st = (Inl (EtcdException k p), st)
              \<and> retry_on_cred_expiry (Suc fuel) func st0 = Some (Inl (EtcdException k p), st))"
proof (intro conjI impI; (elim conjE)?)
  assume e: "cred_expired p" and d: "clock st (clock_reads st) - last_renew > cooldown"
    and g: "get_credential (st\<lparr>clock_reads := Suc (Suc (clock_reads st)),
                  last_cred_renew := Some (clock st (Suc (clock_reads st)))\<rparr>) = (Inr cred, st')"
    and c: "keyval_client st' = Some c"
  show r: "try_renew_credential k p st = (Inr (), st'\<lparr>keyval_client := Some (Client cred)\<rparr>)"
    by (rule try_renew_renews [OF e assms(2) d g c])
  show "last_cred_renew st' = Some (clock st (Suc (clock_reads st)))"
    using last_cred_renew_get_credential [OF g] by simp
  show "retry_on_cred_expiry (Suc fuel) func st0
          = retry_on_cred_expiry fuel func (st'\<lparr>keyval_client := Some (Client cred)\<rparr>)"
    using assms(1) r by simp
next
  assume e: "cred_expired p" and d: "clock st (clock_reads st) - last_renew \<le> cooldown"
  show r: "try_renew_credential k p st
        = (Inl (KeyCredentialError ''access denied''), st\<lparr>clock_reads := Suc (clock_reads st)\<rparr>)"
    by (rule try_renew_cooldown [OF e assms(2) d])
  show "retry_on_cred_expiry (Suc fuel) func st0
               = Some (Inl (KeyCredentialError ''access denied''),
                       st\<lparr>clock_reads := Suc (clock_reads st)\<rparr>)"
    using assms(1) r by simp
next
  assume n: "\<not> cred_expired p"
  show "try_renew_credential k p st = (Inl (EtcdException k p), st)"
    using n by (rule try_renew_not_expired)
  then show "retry_on_cred_expiry (Suc fuel) func st0 = Some (Inl (EtcdException k p), st)"
    using assms(1) by simp
qed

theorem credential_renewal_witness:
  "read_key_index 2 ''cluster'' ''rank_map'' False
     (example_state\<lparr>etcd_auth_type := Munge, munge := (\<lambda>k. Inr ''fresh''),
        clock := (\<lambda>k. if k = 0 then 20000000 else if k = 1 then 20000001 else 30000000),
        etcd_script := [Raises EtcdOther (Some [''errorCode'' \<mapsto> 110]),
                        Raises EtcdOther (Some [''status'' \<mapsto> 401])]\<rparr>)
   = Some (Inl (KeyCredentialError ''access denied''),
       example_state\<lparr>etcd_auth_type := Munge, munge := (\<lambda>k. Inr ''fresh''),
        clock := (\<lambda>k. if k = 0 then 20000000 else if k = 1 then 20000001 else 30000000),
        etcd_script := [],
        etcd_log := [Read ''/pcocc/cluster/7/rank_map'' False, Read ''/pcocc/cluster/7/rank_map'' False],
        clock_reads := 3, last_cred_renew := Some 20000001, munge_calls := 1,
        keyval_client := Some (Client (Some ''fresh''))\<rparr>)
   \<and> read_key_index 3 ''cluster'' ''rank_map'' False
     (example_state\<lparr>etcd_auth_type := Munge, munge := (\<lambda>k. Inr ''fresh''),
        clock := (\<lambda>k. if k = 0 then 20000000 else if k = 1 then 20000001 else 40000000),
        etcd_script := [Raises EtcdOther (Some [''errorCode'' \<mapsto> 110]),
                        Raises EtcdOther (Some [''status'' \<mapsto> 401]),
                        Returns (EtcdResult (Some ''v'') 3 4 [])]\<rparr>)
   = Some (Inr (Some ''v'', 4),
       example_state\<lparr>etcd_auth_type := Munge, munge := (\<lambda>k. Inr ''fresh''),
        clock := (\<lambda>k. if k = 0 then 20000000 else if k = 1 then 20000001 else 40000000),
        etcd_script := [],
        etcd_log := [Read ''/pcocc/cluster/7/rank_map'' False, Read ''/pcocc/cluster/7/rank_map'' False,
                     Read ''/pcocc/cluster/7/rank_map'' False],
        clock_reads := 4, last_cred_renew := Some 40000000, munge_calls := 2,
        keyval_client := Some (Client (Some ''fresh''))\<rparr>)
   \<and> read_key_index 1 ''cluster'' ''rank_map'' False
     (example_state\<lparr>etcd_script := [Raises EtcdOther (Some [''errorCode'' \<mapsto> 300])]\<rparr>)
   = Some (Inl (EtcdException EtcdOther (Some [''errorCode'' \<mapsto> 300])),
       example_state\<lparr>etcd_script := [], etcd_log := [Read ''/pcocc/cluster/7/rank_map'' False]\<rparr>)"
proof -
  let ?p = "''/pcocc/cluster/7/rank_map''"
  let ?f = "read_key_index_body ''cluster'' ''rank_map'' False"
  let ?e1 = "Some [''errorCode'' \<mapsto> (110::int)]"
  let ?e2 = "Some [''status'' \<mapsto> (401::int)]"
  let ?e3 = "Some [''errorCode'' \<mapsto> (300::int)]"
  have path: "\<And>s. batchid s = 7 \<Longrightarrow> get_key_path s ''cluster'' ''rank_map'' = Inr ?p"
    by (simp add: get_key_path_def only_in_a_job_def in_a_job_def str_int_def digit_char_def)
  have x: "cred_expired ?e1" "cred_expired ?e2" "\<not> cred_expired ?e3"
    by (simp_all add: cred_expired_def dict_get_def)
  have two: "(2::nat) = Suc (Suc 0)" and three: "(3::nat) = Suc (Suc (Suc 0))" by simp_all

  have within: "read_key_index 2 ''cluster'' ''rank_map'' False
     (example_state\<lparr>etcd_auth_type := Munge, munge := (\<lambda>k. Inr ''fresh''),
        clock := (\<lambda>k. if k = 0 then 20000000 else if k = 1 then 20000001 else 30000000),
        etcd_script := [Raises EtcdOther ?e1, Raises EtcdOther ?e2]\<rparr>)
   = Some (Inl (KeyCredentialError ''access denied''),
       example_state\<lparr>etcd_auth_type := Munge, munge := (\<lambda>k. Inr ''fresh''),
        clock := (\<lambda>k. if k = 0 then 20000000 else if k = 1 then 20000001 else 30000000),
        etcd_script := [],
        etcd_log := [Read ?p False, Read ?p False],
        clock_reads := 3, last_cred_renew := Some 20000001, munge_calls := 1,
        keyval_client := Some (Client (Some ''fresh''))\<rparr>)"
  proof -
    let ?S0 = "example_state\<lparr>etcd_auth_type := Munge, munge := (\<lambda>k. Inr ''fresh''),
        clock := (\<lambda>k. if k = 0 then 20000000 else if k = 1 then 20000001 else 30000000),
        etcd_script := [Raises EtcdOther ?e1, Raises EtcdOther ?e2]\<rparr>"
    let ?S1 = "sent (Read ?p False) ?S0"
    let ?S1r = "?S1\<lparr>clock_reads := Suc (Suc (clock_reads ?S1)),
                    last_cred_renew := Some (clock ?S1 (Suc (clock_reads ?S1)))\<rparr>"
    let ?S1c = "?S1r\<lparr>munge_calls := Suc (munge_calls ?S1r)\<rparr>"
    let ?S2 = "?S1c\<lparr>keyval_client := Some (Client (Some ''fresh''))\<rparr>"
    let ?S3 = "sent (Read ?p False) ?S2"
    have f0: "?f ?S0 = Some (Inl (EtcdException EtcdOther ?e1), ?S1)"
      by (simp add: read_key_index_body_def path example_state_def client_call_def
            get_keyval_client_def sent_def)
    have l1: "last_cred_renew ?S1 = Some 0" by (simp add: example_state_def sent_def)
    have d1: "clock ?S1 (clock_reads ?S1) - 0 > cooldown"
      by (simp add: example_state_def cooldown_def sent_def)
    have g1: "get_credential ?S1r = (Inr (Some ''fresh''), ?S1c)"
      by (rule get_credential_munge) (simp_all add: example_state_def sent_def)
    have c1: "keyval_client ?S1c = Some (Client (Some ''00112233445566778899aabbccddeeff''))"
      by (simp add: example_state_def sent_def)
    have step1: "retry_on_cred_expiry (Suc (Suc 0)) ?f ?S0 = retry_on_cred_expiry (Suc 0) ?f ?S2"
      using credential_renewal [where func = ?f and ?st0.0 = ?S0 and st = ?S1
                and cred = "Some ''fresh''" and st' = ?S1c and fuel = "Suc 0", OF f0 l1,
                THEN conjunct1] x d1 g1 c1
      by blast
    have f2: "?f ?S2 = Some (Inl (EtcdException EtcdOther ?e2), ?S3)"
      by (simp add: read_key_index_body_def path example_state_def client_call_def
            get_keyval_client_def sent_def)
    have l2: "last_cred_renew ?S3 = Some 20000001" by (simp add: example_state_def sent_def)
    have d2: "clock ?S3 (clock_reads ?S3) - 20000001 \<le> cooldown"
      by (simp add: example_state_def cooldown_def sent_def)
    have step2: "retry_on_cred_expiry (Suc 0) ?f ?S2
       = Some (Inl (KeyCredentialError ''access denied''), ?S3\<lparr>clock_reads := Suc (clock_reads ?S3)\<rparr>)"
      using credential_renewal [where func = ?f and ?st0.0 = ?S2 and st = ?S3 and fuel = 0,
                OF f2 l2, THEN conjunct2, THEN conjunct1] x d2
      by blast
    show ?thesis
      unfolding read_key_index_def two step1 step2
      by (simp add: sent_def example_state_def)
  qed

  have after: "read_key_index 3 ''cluster'' ''rank_map'' False
     (example_state\<lparr>etcd_auth_type := Munge, munge := (\<lambda>k. Inr ''fresh''),
        clock := (\<lambda>k. if k = 0 then 20000000 else if k = 1 then 20000001 else 40000000),
        etcd_script := [Raises EtcdOther ?e1, Raises EtcdOther ?e2,
                        Returns (EtcdResult (Some ''v'') 3 4 [])]\<rparr>)
   = Some (Inr (Some ''v'', 4),
       example_state\<lparr>etcd_auth_type := Munge, munge := (\<lambda>k. Inr ''fresh''),
        clock := (\<lambda>k. if k = 0 then 20000000 else if k = 1 then 20000001 else 40000000),
        etcd_script := [],
        etcd_log := [Read ?p False, Read ?p False, Read ?p False],
        clock_reads := 4, last_cred_renew := Some 40000000, munge_calls := 2,
        keyval_client := Some (Client (Some ''fresh''))\<rparr>)"
  proof -
    let ?S0 = "example_state\<lparr>etcd_auth_type := Munge, munge := (\<lambda>k. Inr ''fresh''),
        clock := (\<lambda>k. if k = 0 then 20000000 else if k = 1 then 20000001 else 40000000),
        etcd_script := [Raises EtcdOther ?e1, Raises EtcdOther ?e2,
                        Returns (EtcdResult (Some ''v'') 3 4 [])]\<rparr>"
    let ?S1 = "sent (Read ?p False) ?S0"
    let ?S1r = "?S1\<lparr>clock_reads := Suc (Suc (clock_reads ?S1)),
                    last_cred_renew := Some (clock ?S1 (Suc (clock_reads ?S1)))\<rparr>"
    let ?S1c = "?S1r\<lparr>munge_calls := Suc (munge_calls ?S1r)\<rparr>"
    let ?S2 = "?S1c\<lparr>keyval_client := Some (Client (Some ''fresh''))\<rparr>"
    let ?S3 = "sent (Read ?p False) ?S2"
    let ?S3r = "?S3\<lparr>clock_reads := Suc (Suc (clock_reads ?S3)),
                    last_cred_renew := Some (clock ?S3 (Suc (clock_reads ?S3)))\<rparr>"
    let ?S3c = "?S3r\<lparr>munge_calls := Suc (munge_calls ?S3r)\<rparr>"
    let ?S4 = "?S3c\<lparr>keyval_client := Some (Client (Some ''fresh''))\<rparr>"
    have f0: "?f ?S0 = Some (Inl (EtcdException EtcdOther ?e1), ?S1)"
      by (simp add: read_key_index_body_def path example_state_def client_call_def
            get_keyval_client_def sent_def)
    have l1: "last_cred_renew ?S1 = Some 0" by (simp add: example_state_def sent_def)
    have d1: "clock ?S1 (clock_reads ?S1) - 0 > cooldown"
      by (simp add: example_state_def cooldown_def sent_def)
    have g1: "get_credential ?S1r = (Inr (Some ''fresh''), ?S1c)"
      by (rule get_credential_munge) (simp_all add: example_state_def sent_def)
    have c1: "keyval_client ?S1c = Some (Client (Some ''00112233445566778899aabbccddeeff''))"
      by (simp add: example_state_def sent_def)
    have step1: "retry_on_cred_expiry (Suc (Suc (Suc 0))) ?f ?S0
                   = retry_on_cred_expiry (Suc (Suc 0)) ?f ?S2"
      using credential_renewal [where func = ?f and ?st0.0 = ?S0 and st = ?S1
                and cred = "Some ''fresh''" and st' = ?S1c and fuel = "Suc (Suc 0)", OF f0 l1,
                THEN conjunct1] x d1 g1 c1
      by blast
    have f2: "?f ?S2 = Some (Inl (EtcdException EtcdOther ?e2), ?S3)"
      by (simp add: read_key_index_body_def path example_state_def client_call_def
            get_keyval_client_def sent_def)
    have l2: "last_cred_renew ?S3 = Some 20000001" by (simp add: example_state_def sent_def)
    have d2: "clock ?S3 (clock_reads ?S3) - 20000001 > cooldown"
      by (simp add: example_state_def cooldown_def sent_def)
    have g2: "get_credential ?S3r = (Inr (Some ''fresh''), ?S3c)"
      by (rule get_credential_munge) (simp_all add: example_state_def sent_def)
    have c2: "keyval_client ?S3c = Some (Client (Some ''fresh''))"
      by (simp add: example_state_def sent_def)
    have step2: "retry_on_cred_expiry (Suc (Suc 0)) ?f ?S2 = retry_on_cred_expiry (Suc 0) ?f ?S4"
      using credential_renewal [where func = ?f and ?st0.0 = ?S2 and st = ?S3
                and cred = "Some ''fresh''" and st' = ?S3c and fuel = "Suc 0", OF f2 l2,
                THEN conjunct1] x d2 g2 c2
      by blast
    have f4: "?f ?S4 = Some (Inr (Some ''v'', 4), sent (Read ?p False) ?S4)"
      by (simp add: read_key_index_body_def path example_state_def client_call_def
            get_keyval_client_def sent_def)
    have step3: "retry_on_cred_expiry (Suc 0) ?f ?S4
                   = Some (Inr (Some ''v'', 4), sent (Read ?p False) ?S4)"
      using f4 by (rule retry_returns)
    show ?thesis
      unfolding read_key_index_def three step1 step2 step3
      by (simp add: sent_def example_state_def)
  qed

  have other: "read_key_index 1 ''cluster'' ''rank_map'' False
     (example_state\<lparr>etcd_script := [Raises EtcdOther ?e3]\<rparr>)
   = Some (Inl (EtcdException EtcdOther ?e3),
       example_state\<lparr>etcd_script := [], etcd_log := [Read ?p False]\<rparr>)"
  proof -
    let ?S0 = "example_state\<lparr>etcd_script := [Raises EtcdOther ?e3]\<rparr>"
    let ?S1 = "sent (Read ?p False) ?S0"
    have f0: "?f ?S0 = Some (Inl (EtcdException EtcdOther ?e3), ?S1)"
      by (simp add: read_key_index_body_def path example_state_def client_call_def
            get_keyval_client_def sent_def)
    have l1: "last_cred_renew ?S1 = Some 0" by (simp add: example_state_def sent_def)
    have "retry_on_cred_expiry (Suc 0) ?f ?S0 = Some (Inl (EtcdException EtcdOther ?e3), ?S1)"
      using credential_renewal [where func = ?f and ?st0.0 = ?S0 and st = ?S1 and fuel = 0,
                OF f0 l1, THEN conjunct2, THEN conjunct2] x
      by blast
    then show ?thesis
      unfolding read_key_index_def One_nat_def
      by (simp add: sent_def example_state_def)
  qed
  show ?thesis using within after other by (simp only: simp_thms)
qed


section \<open>Who builds, publishes and loads the rank map\<close>

lemma build_blocks_example:
  "build_blocks (split_comma ''4(x2),2'') 0 [] = (Inr (), [0, 0, 0, 0, 1, 1, 1, 1, 2, 2])"
proof -
  let ?bs = "[Compressed ''4'' ''2'', Bare ''2'']"
  have v: "list_all valid_block ?bs" by (simp add: is_number_def is_digit_def)
  have e: "expand_spec 0 (node_counts ?bs) = [0, 0, 0, 0, 1, 1, 1, 1, 2, 2]"
    by (simp add: node_counts_def dec_val_def digit_val_def eval_nat_numeral)
  have "split_comma (render ?bs) = map render_block ?bs" by (rule split_render [OF _ v]) simp
  then show ?thesis using build_blocks_spec [OF v, of 0 "[]"] e by simp
qed

lemma cluster_path:
  "in_a_job st \<Longrightarrow> get_key_path st ''cluster'' key
     = Inr (''/pcocc/cluster/'' @ str_int (batchid st) @ ''/'' @ key)"
  by (simp add: get_key_path_def only_in_a_job_def)

lemma get_key_path_rank_map [simp]:
  "get_key_path (st\<lparr>rank_map := m\<rparr>) = get_key_path st"
  by (simp add: fun_eq_iff get_key_path_def only_in_a_job_def in_a_job_def)

lemma build_rank_map_silent:
  assumes "\<not> (proc_type st = SETUP \<and> node_rank st = 0)"
    and "build_rank_map yaml_dump fuel tasks_per_node st = Some (r, st')"
  shows "etcd_log st' = etcd_log st \<and> etcd_script st' = etcd_script st
         \<and> keyval_client st' = keyval_client st"
  using assms
  by (auto simp: build_rank_map_def Let_def
        split: sum.splits if_splits option.splits prod.splits)

lemma build_rank_map_publishes:
  assumes "proc_type st = SETUP" and "node_rank st = 0" and "in_a_job st" and "rank_map st = []"
    and "keyval_client st = Some c" and "etcd_script st = Returns w # rest"
    and "blocks \<noteq> []" and "list_all valid_block blocks"
    and "(if truthy tasks_per_node then tasks_per_node else environ st ''SLURM_TASKS_PER_NODE'')
           = Some (render blocks)"
  shows "build_rank_map yaml_dump (Suc fuel) tasks_per_node st
     = Some (Inr (), st\<lparr>rank_map := expand_spec 0 (node_counts blocks), etcd_script := rest,
          etcd_log := etcd_log st @ [Write (''/pcocc/cluster/'' @ str_int (batchid st) @ ''/rank_map'')
             (Some (yaml_dump (expand_spec 0 (node_counts blocks)))) None None]\<rparr>)"
proof -
  let ?m = "expand_spec 0 (node_counts blocks)"
  let ?st1 = "st\<lparr>rank_map := ?m\<rparr>"
  have bb: "build_blocks (split_comma (render blocks)) 0 [] = (Inr (), ?m)"
    using build_blocks_spec [OF assms(8), of 0 "[]"] split_render [OF assms(7,8)] by simp
  have p: "get_key_path ?st1 ''cluster'' ''rank_map''
             = Inr (''/pcocc/cluster/'' @ str_int (batchid st) @ ''/rank_map'')"
    using cluster_path [OF assms(3), of "''rank_map''"] by simp
  have "write_key (Suc fuel) ''cluster'' ''rank_map'' (Some (yaml_dump ?m)) ?st1
          = Some (Inr w, sent (Write (''/pcocc/cluster/'' @ str_int (batchid st) @ ''/rank_map'')
                                (Some (yaml_dump ?m)) None None) ?st1)"
    by (rule write_key_done [OF _ p]) (simp_all add: assms(5,6))
  then show ?thesis
    using assms(1-4,6,9) bb
    by (simp add: build_rank_map_def only_in_a_job_def sent_def)
qed

lemma load_rank_map_present:
  assumes "rank_map st = []" and "in_a_job st" and "keyval_client st = Some c"
    and "etcd_script st = Returns res # rest" and "res_value res = Some d" and "d \<noteq> []"
  shows "load_rank_map yaml_safe_load (Suc fuel) st
     = Some (Inr (), st\<lparr>etcd_script := rest,
          etcd_log := etcd_log st @ [Read (''/pcocc/cluster/'' @ str_int (batchid st) @ ''/rank_map'') False],
          rank_map := yaml_safe_load d\<rparr>)"
proof -
  have "read_key_index (Suc fuel) ''cluster'' ''rank_map'' False st
          = Some (Inr (res_value res, max (modifiedIndex res) (etcd_index res)),
                  sent (Read (''/pcocc/cluster/'' @ str_int (batchid st) @ ''/rank_map'') False) st)"
    using read_key_index_found [OF assms(3) cluster_path [OF assms(2)] assms(4),
            where n = fuel and realindex = False]
    by simp
  then show ?thesis using assms(1,4,5,6)
    by (simp add: load_rank_map_def read_key_def truthy_def sent_def)
qed

lemma load_rank_map_waits:
  assumes "rank_map st = []" and "in_a_job st" and "keyval_client st = Some c"
    and "etcd_script st = Raises EtcdKeyNotFound (Some dd) # Returns res # rest"
    and "dd ''index'' = Some i" and "res_value res = Some d" and "d \<noteq> []"
  shows "load_rank_map yaml_safe_load (Suc fuel) st
     = Some (Inr (), st\<lparr>etcd_script := rest,
          etcd_log := etcd_log st @ [Read (''/pcocc/cluster/'' @ str_int (batchid st) @ ''/rank_map'') False,
                                     Watch (''/pcocc/cluster/'' @ str_int (batchid st) @ ''/rank_map'') (i + 1) 0],
          rank_map := yaml_safe_load d\<rparr>)"
proof -
  let ?p = "''/pcocc/cluster/'' @ str_int (batchid st) @ ''/rank_map''"
  let ?s1 = "sent (Read ?p False) st"
  have rd: "read_key_index (Suc fuel) ''cluster'' ''rank_map'' False st = Some (Inr (None, i), ?s1)"
    using read_key_index_absent [OF assms(3) cluster_path [OF assms(2)] assms(4,5),
            where n = fuel and realindex = False]
    by simp
  have c1: "keyval_client ?s1 = Some c" "get_key_path ?s1 ''cluster'' ''rank_map'' = Inr ?p"
    using assms(3) cluster_path [OF assms(2), of "''rank_map''"] by simp_all
  have "wait_key_index (Suc fuel) ''cluster'' ''rank_map'' i 0 ?s1
          = Some (Inr (Some res, max (modifiedIndex res) (etcd_index res)), sent (Watch ?p (i + 1) 0) ?s1)"
    using wait_key_index_changed [OF c1, of res rest fuel i 0] assms(4) by simp
  then have "read_key (Suc fuel) ''cluster'' ''rank_map'' True 0 st
          = Some (Inr (Some d), sent (Watch ?p (i + 1) 0) ?s1)"
    using rd assms(6) by (simp add: read_key_def truthy_def)
  then show ?thesis using assms(1,4,7)
    by (simp add: load_rank_map_def sent_def)
qed

lemma load_rank_map_blocked:
  assumes "rank_map st = []" and "in_a_job st" and "keyval_client st = Some c"
    and "etcd_script st = [Raises EtcdKeyNotFound (Some dd)]" and "dd ''index'' = Some i"
  shows "load_rank_map yaml_safe_load (Suc fuel) st = None"
proof -
  let ?p = "''/pcocc/cluster/'' @ str_int (batchid st) @ ''/rank_map''"
  let ?s1 = "sent (Read ?p False) st"
  have rd: "read_key_index (Suc fuel) ''cluster'' ''rank_map'' False st = Some (Inr (None, i), ?s1)"
    using read_key_index_absent [OF assms(3) cluster_path [OF assms(2)] assms(4,5),
            where n = fuel and realindex = False]
    by simp
  have c1: "keyval_client ?s1 = Some c" "get_key_path ?s1 ''cluster'' ''rank_map'' = Inr ?p"
    using assms(3) cluster_path [OF assms(2), of "''rank_map''"] by simp_all
  have "wait_key_index (Suc fuel) ''cluster'' ''rank_map'' i 0 ?s1 = None"
    using wait_key_index_blocked [OF c1, of fuel i 0] assms(4) by simp
  then have "read_key (Suc fuel) ''cluster'' ''rank_map'' True 0 st = None"
    using rd by (simp add: read_key_def truthy_def)
  then show ?thesis using assms(1) by (simp add: load_rank_map_def)
qed


text \<open>
  Claim C2 says that one process alone expands the distribution string and that every
  other process fetches the published map. A hypervisor process on node 1 expands the
  string itself and sends the store nothing.
\<close>

theorem hypervisor_expands_rank_map:
  "init_rank_map yaml_dump_flow yaml_load_flow 1
     (example_state\<lparr>proc_type := HYPERVISOR, environ := [''SLURM_TASKS_PER_NODE'' \<mapsto> ''4(x2),2'']\<rparr>)
   = Some (Inr (), example_state\<lparr>proc_type := HYPERVISOR,
             environ := [''SLURM_TASKS_PER_NODE'' \<mapsto> ''4(x2),2''],
             rank_map := [0, 0, 0, 0, 1, 1, 1, 1, 2, 2]\<rparr>)
   \<and> node_rank example_state = 1 \<and> etcd_script example_state = [] \<and> etcd_log example_state = []"
  using build_blocks_example
  by (simp add: init_rank_map_def build_rank_map_def only_in_a_job_def in_a_job_def truthy_def
        example_state_def)

text \<open>
  Claim C2, as the code has it. In a job, every process of role Setup, Launcher or
  Hypervisor expands the distribution string itself; only the Setup process of node
  rank 0 publishes the serialised map, with one write under the cluster scope of the
  job, and the others send the store nothing. A process of role User does not expand
  the string: it reads the published value, waiting for it if the key is not there yet
  (for ever if nothing is published), and parses it.
\<close>

theorem rank_map_by_role:
  "init_rank_map yaml_dump yaml_safe_load fuel st
     = (if batchid st = 0 \<or> proc_type st = OTHER then Some (Inr (), st)
        else if proc_type st = USER then load_rank_map yaml_safe_load fuel st
        else build_rank_map yaml_dump fuel None st)
   \<and> (\<not> (proc_type sb = SETUP \<and> node_rank sb = 0) \<longrightarrow>
        (\<forall>r sb'. build_rank_map yaml_dump fuel tasks_per_node sb = Some (r, sb') \<longrightarrow>
           etcd_log sb' = etcd_log sb \<and> etcd_script sb' = etcd_script sb))
   \<and> (proc_type sp = SETUP \<and> node_rank sp = 0 \<and> in_a_job sp \<and> rank_map sp = []
        \<and> keyval_client sp = Some c \<and> etcd_script sp = Returns w # rest
        \<and> blocks \<noteq> [] \<and> list_all valid_block blocks
        \<and> (if truthy tasks_per_node then tasks_per_node else environ sp ''SLURM_TASKS_PER_NODE'')
             = Some (render blocks) \<longrightarrow>
        build_rank_map yaml_dump (Suc fuel) tasks_per_node sp
          = Some (Inr (), sp\<lparr>rank_map := expand_spec 0 (node_counts blocks), etcd_script := rest,
              etcd_log := etcd_log sp
                @ [Write (''/pcocc/cluster/'' @ str_int (batchid sp) @ ''/rank_map'')
                     (Some (yaml_dump (expand_spec 0 (node_counts blocks)))) None None]\<rparr>))
   \<and> (rank_map su = [] \<and> in_a_job su \<and> keyval_client su = Some c
        \<and> etcd_script su = Returns res # rest \<and> res_value res = Some d \<and> d \<noteq> [] \<longrightarrow>
        load_rank_map yaml_safe_load (Suc fuel) su
          = Some (Inr (), su\<lparr>etcd_script := rest,
              etcd_log := etcd_log su
                @ [Read (''/pcocc/cluster/'' @ str_int (batchid su) @ ''/rank_map'') False],
              rank_map := yaml_safe_load d\<rparr>))
   \<and> (rank_map sv = [] \<and> in_a_job sv \<and> keyval_client sv = Some c
        \<and> etcd_script sv = Raises EtcdKeyNotFound (Some dd) # Returns res # rest
        \<and> dd ''index'' = Some i \<and> res_value res = Some d \<and> d \<noteq> [] \<longrightarrow>
        load_rank_map yaml_safe_load (Suc fuel) sv
          = Some (Inr (), sv\<lparr>etcd_script := rest,
              etcd_log := etcd_log sv
                @ [Read (''/pcocc/cluster/'' @ str_int (batchid sv) @ ''/rank_map'') False,
                   Watch (''/pcocc/cluster/'' @ str_int (batchid sv) @ ''/rank_map'') (i + 1) 0],
              rank_map := yaml_safe_load d\<rparr>))
   \<and> (rank_map sw = [] \<and> in_a_job sw \<and> keyval_client sw = Some c
        \<and> etcd_script sw = [Raises EtcdKeyNotFound (Some dd)] \<and> dd ''index'' = Some i \<longrightarrow>
        load_rank_map yaml_safe_load (Suc fuel) sw = None)"
proof (intro conjI impI allI; (elim conjE)?)
  show "init_rank_map yaml_dump yaml_safe_load fuel st
     = (if batchid st = 0 \<or> proc_type st = OTHER then Some (Inr (), st)
        else if proc_type st = USER then load_rank_map yaml_safe_load fuel st
        else build_rank_map yaml_dump fuel None st)"
    by (cases "proc_type st") (simp_all add: init_rank_map_def)
next
  fix r sb'
  assume "\<not> (proc_type sb = SETUP \<and> node_rank sb = 0)"
    and "build_rank_map yaml_dump fuel tasks_per_node sb = Some (r, sb')"
  then show "etcd_log sb' = etcd_log sb" and "etcd_script sb' = etcd_script sb"
    using build_rank_map_silent by blast+
next
  assume "proc_type sp = SETUP" "node_rank sp = 0" "in_a_job sp" "rank_map sp = []"
    "keyval_client sp = Some c" "etcd_script sp = Returns w # rest"
    "blocks \<noteq> []" "list_all valid_block blocks"
    "(if truthy tasks_per_node then tasks_per_node else environ sp ''SLURM_TASKS_PER_NODE'')
             = Some (render blocks)"
  then show "build_rank_map yaml_dump (Suc fuel) tasks_per_node sp
          = Some (Inr (), sp\<lparr>rank_map := expand_spec 0 (node_counts blocks), etcd_script := rest,
              etcd_log := etcd_log sp
                @ [Write (''/pcocc/cluster/'' @ str_int (batchid sp) @ ''/rank_map'')
                     (Some (yaml_dump (expand_spec 0 (node_counts blocks)))) None None]\<rparr>)"
    by (rule build_rank_map_publishes)
next
  assume "rank_map su = []" "in_a_job su" "keyval_client su = Some c"
    "etcd_script su = Returns res # rest" "res_value res = Some d" "d \<noteq> []"
  then show "load_rank_map yaml_safe_load (Suc fuel) su
          = Some (Inr (), su\<lparr>etcd_script := rest,
              etcd_log := etcd_log su
                @ [Read (''/pcocc/cluster/'' @ str_int (batchid su) @ ''/rank_map'') False],
              rank_map := yaml_safe_load d\<rparr>)"
    by (rule load_rank_map_present)
next
  assume "rank_map sv = []" "in_a_job sv" "keyval_client sv = Some c"
    "etcd_script sv = Raises EtcdKeyNotFound (Some dd) # Returns res # rest"
    "dd ''index'' = Some i" "res_value res = Some d" "d \<noteq> []"
  then show "load_rank_map yaml_safe_load (Suc fuel) sv
          = Some (Inr (), sv\<lparr>etcd_script := rest,
              etcd_log := etcd_log sv
                @ [Read (''/pcocc/cluster/'' @ str_int (batchid sv) @ ''/rank_map'') False,
                   Watch (''/pcocc/cluster/'' @ str_int (batchid sv) @ ''/rank_map'') (i + 1) 0],
              rank_map := yaml_safe_load d\<rparr>)"
    by (rule load_rank_map_waits)
next
  assume "rank_map sw = []" "in_a_job sw" "keyval_client sw = Some c"
    "etcd_script sw = [Raises EtcdKeyNotFound (Some dd)]" "dd ''index'' = Some i"
  then show "load_rank_map yaml_safe_load (Suc fuel) sw = None"
    by (rule load_rank_map_blocked)
qed


theorem rank_map_by_role_witness:
  "init_rank_map yaml_dump_flow yaml_load_flow 1
     (example_state\<lparr>proc_type := SETUP, node_rank := 0,
        environ := [''SLURM_TASKS_PER_NODE'' \<mapsto> ''4(x2),2''],
        etcd_script := [Returns (EtcdResult (Some ''x'') 3 3 [])]\<rparr>)
   = Some (Inr (), example_state\<lparr>proc_type := SETUP, node_rank := 0,
        environ := [''SLURM_TASKS_PER_NODE'' \<mapsto> ''4(x2),2''],
        etcd_script := [], rank_map := [0, 0, 0, 0, 1, 1, 1, 1, 2, 2],
        etcd_log := [Write ''/pcocc/cluster/7/rank_map''
                       (Some (''[0, 0, 0, 0, 1, 1, 1, 1, 2, 2]'' @ [CHR 0x0A])) None None]\<rparr>)
   \<and> init_rank_map yaml_dump_flow yaml_load_flow 1
     (example_state\<lparr>etcd_script :=
        [Returns (EtcdResult (Some (''[0, 0, 0, 0, 1, 1, 1, 1, 2, 2]'' @ [CHR 0x0A])) 3 3 [])]\<rparr>)
   = Some (Inr (), example_state\<lparr>etcd_script := [],
        etcd_log := [Read ''/pcocc/cluster/7/rank_map'' False],
        rank_map := [0, 0, 0, 0, 1, 1, 1, 1, 2, 2]\<rparr>)
   \<and> init_rank_map yaml_dump_flow yaml_load_flow 1
     (example_state\<lparr>etcd_script :=
        [Raises EtcdKeyNotFound (Some [''index'' \<mapsto> 2]),
         Returns (EtcdResult (Some (''[0, 0, 0, 0, 1, 1, 1, 1, 2, 2]'' @ [CHR 0x0A])) 3 3 [])]\<rparr>)
   = Some (Inr (), example_state\<lparr>etcd_script := [],
        etcd_log := [Read ''/pcocc/cluster/7/rank_map'' False, Watch ''/pcocc/cluster/7/rank_map'' 3 0],
        rank_map := [0, 0, 0, 0, 1, 1, 1, 1, 2, 2]\<rparr>)
   \<and> init_rank_map yaml_dump_flow yaml_load_flow 1
     (example_state\<lparr>etcd_script := [Raises EtcdKeyNotFound (Some [''index'' \<mapsto> 2])]\<rparr>) = None
   \<and> (case build_rank_map yaml_dump_flow 1 None
          (example_state\<lparr>proc_type := LAUNCHER, environ := [''SLURM_TASKS_PER_NODE'' \<mapsto> ''4(x2),2'']\<rparr>)
       of None \<Rightarrow> False | Some (r, s') \<Rightarrow> etcd_log s' = [] \<and> etcd_script s' = [])"
proof -
  let ?bs = "[Compressed ''4'' ''2'', Bare ''2'']"
  let ?m = "[0, 0, 0, 0, 1, 1, 1, 1, 2, 2] :: int list"
  let ?y = "''[0, 0, 0, 0, 1, 1, 1, 1, 2, 2]'' @ [CHR 0x0A]"
  let ?w = "EtcdResult (Some ''x'') 3 3 []"
  let ?res = "EtcdResult (Some ?y) 3 3 []"
  let ?nf = "Raises EtcdKeyNotFound (Some [''index'' \<mapsto> 2])"
  let ?sp = "example_state\<lparr>proc_type := SETUP, node_rank := 0,
        environ := [''SLURM_TASKS_PER_NODE'' \<mapsto> ''4(x2),2''],
        etcd_script := [Returns ?w]\<rparr>"
  let ?su = "example_state\<lparr>etcd_script := [Returns ?res]\<rparr>"
  let ?sv = "example_state\<lparr>etcd_script := [?nf, Returns ?res]\<rparr>"
  let ?sw = "example_state\<lparr>etcd_script := [?nf]\<rparr>"
  let ?sb = "example_state\<lparr>proc_type := LAUNCHER, environ := [''SLURM_TASKS_PER_NODE'' \<mapsto> ''4(x2),2'']\<rparr>"
  let ?c = "Client (Some ''00112233445566778899aabbccddeeff'')"
  have v: "?bs \<noteq> []" "list_all valid_block ?bs" by (simp_all add: is_number_def is_digit_def)
  have r: "render ?bs = ''4(x2),2''" by simp
  have e: "expand_spec 0 (node_counts ?bs) = ?m"
    by (simp add: node_counts_def dec_val_def digit_val_def eval_nat_numeral)
  have dump: "yaml_dump_flow ?m = ?y"
    by (simp add: yaml_dump_flow_def str_int_def digit_char_def)
  have load: "yaml_load_flow ?y = ?m"
    by (simp add: yaml_load_flow_def strip_def is_space_def py_int_def Let_def is_digit_def
          dec_val_def digit_val_def)
  have id7: "str_int 7 = ''7''" by (simp add: str_int_def digit_char_def)
  note T = rank_map_by_role [where yaml_dump = yaml_dump_flow and yaml_safe_load = yaml_load_flow
      and sb = ?sb and sp = ?sp and su = ?su and sv = ?sv and sw = ?sw and c = ?c
      and blocks = ?bs and tasks_per_node = None and w = ?w and rest = "[]" and res = ?res
      and d = ?y and dd = "[''index'' \<mapsto> 2]" and i = 2 and fuel = 0]
  note D = rank_map_by_role [where yaml_dump = yaml_dump_flow and yaml_safe_load = yaml_load_flow
      and sb = ?sb and tasks_per_node = None and fuel = "Suc 0"]
  have hp: "proc_type ?sp = SETUP \<and> node_rank ?sp = 0 \<and> in_a_job ?sp \<and> rank_map ?sp = []
        \<and> keyval_client ?sp = Some ?c \<and> etcd_script ?sp = Returns ?w # []
        \<and> ?bs \<noteq> [] \<and> list_all valid_block ?bs
        \<and> (if truthy None then None else environ ?sp ''SLURM_TASKS_PER_NODE'') = Some (render ?bs)"
    using v by (simp add: example_state_def in_a_job_def truthy_def)
  have hu: "rank_map ?su = [] \<and> in_a_job ?su \<and> keyval_client ?su = Some ?c
        \<and> etcd_script ?su = Returns ?res # [] \<and> res_value ?res = Some ?y \<and> ?y \<noteq> []"
    by (simp add: example_state_def in_a_job_def)
  have hv: "rank_map ?sv = [] \<and> in_a_job ?sv \<and> keyval_client ?sv = Some ?c
        \<and> etcd_script ?sv = ?nf # Returns ?res # []
        \<and> [''index'' \<mapsto> (2::int)] ''index'' = Some 2 \<and> res_value ?res = Some ?y \<and> ?y \<noteq> []"
    by (simp add: example_state_def in_a_job_def)
  have hw: "rank_map ?sw = [] \<and> in_a_job ?sw \<and> keyval_client ?sw = Some ?c
        \<and> etcd_script ?sw = [?nf] \<and> [''index'' \<mapsto> (2::int)] ''index'' = Some 2"
    by (simp add: example_state_def in_a_job_def)
  have hb: "\<not> (proc_type ?sb = SETUP \<and> node_rank ?sb = 0)" by (simp add: example_state_def)
  have roles: "batchid ?sp = 7" "proc_type ?sp = SETUP" "batchid ?su = 7" "proc_type ?su = USER"
    "batchid ?sv = 7" "proc_type ?sv = USER" "batchid ?sw = 7" "proc_type ?sw = USER"
    "etcd_log ?sp = []" "etcd_log ?su = []" "etcd_log ?sv = []" "etcd_log ?sw = []"
    "etcd_log ?sb = []" "etcd_script ?sb = []"
    by (simp_all add: example_state_def)
  have d1: "init_rank_map yaml_dump_flow yaml_load_flow 1 ?sp
              = build_rank_map yaml_dump_flow (Suc 0) None ?sp"
    using D [where st = ?sp, THEN conjunct1] roles by simp
  have d2: "init_rank_map yaml_dump_flow yaml_load_flow 1 ?su = load_rank_map yaml_load_flow (Suc 0) ?su"
    using D [where st = ?su, THEN conjunct1] roles by simp
  have d3: "init_rank_map yaml_dump_flow yaml_load_flow 1 ?sv = load_rank_map yaml_load_flow (Suc 0) ?sv"
    using D [where st = ?sv, THEN conjunct1] roles by simp
  have d4: "init_rank_map yaml_dump_flow yaml_load_flow 1 ?sw = load_rank_map yaml_load_flow (Suc 0) ?sw"
    using D [where st = ?sw, THEN conjunct1] roles by simp
  have w1: "build_rank_map yaml_dump_flow (Suc 0) None ?sp
     = Some (Inr (), ?sp\<lparr>rank_map := ?m, etcd_script := [],
              etcd_log := [Write ''/pcocc/cluster/7/rank_map'' (Some ?y) None None]\<rparr>)"
    using T [where st = ?sp, THEN conjunct2, THEN conjunct2, THEN conjunct1, rule_format, OF hp]
    by (simp only: e dump roles id7 append_Nil) simp
  have w2: "load_rank_map yaml_load_flow (Suc 0) ?su
     = Some (Inr (), ?su\<lparr>etcd_script := [],
              etcd_log := [Read ''/pcocc/cluster/7/rank_map'' False], rank_map := ?m\<rparr>)"
    using T [where st = ?sp, THEN conjunct2, THEN conjunct2, THEN conjunct2, THEN conjunct1,
             rule_format, OF hu]
    by (simp only: load roles id7 append_Nil) simp
  have w3: "load_rank_map yaml_load_flow (Suc 0) ?sv
     = Some (Inr (), ?sv\<lparr>etcd_script := [],
              etcd_log := [Read ''/pcocc/cluster/7/rank_map'' False,
                           Watch ''/pcocc/cluster/7/rank_map'' 3 0], rank_map := ?m\<rparr>)"
    using T [where st = ?sp, THEN conjunct2, THEN conjunct2, THEN conjunct2, THEN conjunct2,
             THEN conjunct1, rule_format, OF hv]
    by (simp only: load roles id7 append_Nil) simp
  have w4: "load_rank_map yaml_load_flow (Suc 0) ?sw = None"
    using T [where st = ?sp, THEN conjunct2, THEN conjunct2, THEN conjunct2, THEN conjunct2,
             THEN conjunct2, rule_format, OF hw] .
  have run: "build_rank_map yaml_dump_flow 1 None ?sb = Some (Inr (), ?sb\<lparr>rank_map := ?m\<rparr>)"
    using build_blocks_example
    by (simp add: build_rank_map_def only_in_a_job_def in_a_job_def truthy_def example_state_def)
  have w5: "case build_rank_map yaml_dump_flow 1 None ?sb of None \<Rightarrow> False
            | Some (r, s') \<Rightarrow> etcd_log s' = [] \<and> etcd_script s' = []"
    using D [where st = ?sp, THEN conjunct2, THEN conjunct1, rule_format, OF hb] run roles
    by simp
  show ?thesis
    unfolding d1 d2 d3 d4 w1 w2 w3 w4
    using w5 by simp
qed


section \<open>The persisted secret\<close>

lemma bit_256: "n = 8" if "bit (256::int) n"
proof -
  from that have "bit ((2::int) ^ 8) n" by simp
  then show ?thesis by (metis bit_exp_iff)
qed

lemma owner_read_within:
  fixes u b :: int
  shows "bit b 8 \<Longrightarrow> (256 AND NOT u) AND NOT b = 0"
    and "\<not> bit b 8 \<Longrightarrow> (256 AND NOT u) AND b = 0"
  by (rule bit_eqI; use bit_256 in \<open>auto simp: bit_and_iff bit_not_iff\<close>)+

lemma mode_bits:
  "(256 AND NOT u) AND NOT 384 = (0::int)" "(256 AND NOT u) AND bad_perms = (0::int)"
proof -
  show "(256 AND NOT u) AND NOT 384 = (0::int)" by (rule owner_read_within(1)) simp
  have "bad_perms = 54"
    by (simp add: bad_perms_def S_IRGRP_def S_IWGRP_def S_IROTH_def S_IWOTH_def)
  moreover have "\<not> bit (54::int) 8" by simp
  ultimately have "\<not> bit bad_perms 8" by simp
  then show "(256 AND NOT u) AND bad_perms = (0::int)" by (rule owner_read_within(2))
qed

lemma length_b2a_hex: "length (b2a_hex bs) = 2 * length bs"
  by (induction bs) (simp_all add: b2a_hex_def)

lemma hex_char_in: "hex_char d \<in> set ''0123456789abcdef''"
proof -
  have "d mod 16 < length ''0123456789abcdef''" by simp
  then show ?thesis unfolding hex_char_def by (rule nth_mem)
qed

lemma set_b2a_hex: "set (b2a_hex bs) \<subseteq> set ''0123456789abcdef''"
proof
  fix x
  assume "x \<in> set (b2a_hex bs)"
  then obtain d where "x = hex_char d" by (auto simp: b2a_hex_def)
  then show "x \<in> set ''0123456789abcdef''" using hex_char_in by simp
qed

lemma init_password_generates:
  assumes "uid st \<noteq> 0" and "proc_type st \<noteq> HYPERVISOR"
    and "os_stat_answer st (path_join (pcocc_state_dir st) ''.etcd-password'') = Inl ENOENT"
    and "os_open_answer st (path_join (pcocc_state_dir st) ''.etcd-password'') = Inr f"
    and "os_write_answer st f (b2a_hex (map (entropy st) [entropy_pos st ..< entropy_pos st + 16])) = None"
    and "os_close_answer st f = None"
  shows "init_password st
     = (Inr (), st\<lparr>os_log := os_log st
            @ [Stat (path_join (pcocc_state_dir st) ''.etcd-password''),
               Mkdir (pcocc_state_dir st),
               Open (path_join (pcocc_state_dir st) ''.etcd-password'') 256,
               Write_fd f (b2a_hex (map (entropy st) [entropy_pos st ..< entropy_pos st + 16])),
               Close f],
          entropy_pos := entropy_pos st + 16,
          etcd_password := Some (b2a_hex (map (entropy st) [entropy_pos st ..< entropy_pos st + 16]))\<rparr>)"
  using assms
  by (simp add: init_password_def generate_password_def os_stat_def os_mkdir_def os_urandom_def
        os_open_def os_write_def os_close_def called_def Let_def ETCD_PASSWORD_BYTES_def)

lemma init_password_open_fails:
  assumes "uid st \<noteq> 0" and "proc_type st \<noteq> HYPERVISOR"
    and "os_stat_answer st (path_join (pcocc_state_dir st) ''.etcd-password'') = Inl ENOENT"
    and "os_open_answer st (path_join (pcocc_state_dir st) ''.etcd-password'') = Inl en"
  shows "init_password st
     = (Inl (KeyCredentialError (''unable to generate password: ''
               @ str_os_error en (Some (path_join (pcocc_state_dir st) ''.etcd-password'')))),
        st\<lparr>os_log := os_log st
            @ [Stat (path_join (pcocc_state_dir st) ''.etcd-password''),
               Mkdir (pcocc_state_dir st),
               Open (path_join (pcocc_state_dir st) ''.etcd-password'') 256],
          entropy_pos := entropy_pos st + 16,
          etcd_password := Some (b2a_hex (map (entropy st) [entropy_pos st ..< entropy_pos st + 16]))\<rparr>)"
  using assms
  by (simp add: init_password_def generate_password_def os_stat_def os_mkdir_def os_urandom_def
        os_open_def called_def Let_def ETCD_PASSWORD_BYTES_def)

lemma init_password_reads:
  assumes "uid st \<noteq> 0"
    and "os_stat_answer st (path_join (pcocc_state_dir st) ''.etcd-password'') = Inr m"
    and "file_read_answer st (path_join (pcocc_state_dir st) ''.etcd-password'') = Inr data"
  shows "fst (init_password st)
     = (if length (strip data) \<noteq> 2 * ETCD_PASSWORD_BYTES
        then Inl (KeyCredentialError (''password file ''
               @ path_join (pcocc_state_dir st) ''.etcd-password''
               @ '' is invalid, please delete it and allocate a new virual cluster''))
        else Inr ())"
    and "etcd_password (snd (init_password st)) = Some (strip data)"
    and "os_log (snd (init_password st))
           = os_log st @ [Stat (path_join (pcocc_state_dir st) ''.etcd-password''),
                          FileRead (path_join (pcocc_state_dir st) ''.etcd-password'')]"
  using assms
  by (simp_all add: init_password_def os_stat_def file_read_def warn_loose_def called_def Let_def)


lemma example_secret:
  "b2a_hex (map (\<lambda>k. 0) [0 ..< 0 + 16]) = ''00000000000000000000000000000000''"
proof -
  have "[0 ..< 16] = [0, 1, 2, 3, 4, 5, 6, 7, 8, 9, 10, 11, 12, 13, 14, 15 :: nat]"
    by (simp add: upt_rec)
  then show ?thesis by (simp add: b2a_hex_def hex_char_def)
qed

text \<open>
  Claim C9 says that an existing secret file whose content length differs from 32 makes
  the call fail, and that without a secret file the secret is written to a new file.
  A file of 33 bytes, 32 hexadecimal digits and a newline, is accepted, since the length
  tested is that of the stripped content. And where no file exists and the operating
  system refuses to open one, nothing is written: the call raises \<open>KeyCredentialError\<close>.
\<close>

theorem init_password_lenient:
  "init_password (example_state\<lparr>etcd_password := None,
       os_stat_answer := (os_stat_answer example_state)
          (''/home/alice/.pcocc/.etcd-password'' := Inr 384),
       file_read_answer := (file_read_answer example_state)
          (''/home/alice/.pcocc/.etcd-password''
             := Inr (''00000000000000000000000000000000'' @ [CHR 0x0A]))\<rparr>)
   = (Inr (), example_state\<lparr>etcd_password := Some ''00000000000000000000000000000000'',
        os_stat_answer := (os_stat_answer example_state)
          (''/home/alice/.pcocc/.etcd-password'' := Inr 384),
        file_read_answer := (file_read_answer example_state)
          (''/home/alice/.pcocc/.etcd-password''
             := Inr (''00000000000000000000000000000000'' @ [CHR 0x0A])),
        os_log := [Stat ''/home/alice/.pcocc/.etcd-password'',
                   FileRead ''/home/alice/.pcocc/.etcd-password'']\<rparr>)
   \<and> length (''00000000000000000000000000000000'' @ [CHR 0x0A]) = 33
   \<and> os_stat_answer example_state ''/home/alice/.pcocc/.etcd-password'' = Inl ENOENT
   \<and> fst (init_password (example_state\<lparr>etcd_password := None,
          os_open_answer := (os_open_answer example_state)
             (''/home/alice/.pcocc/.etcd-password'' := Inl EACCES)\<rparr>))
     = Inl (KeyCredentialError (''unable to generate password: [Errno 13] Permission denied: ''
              @ [CHR 0x27] @ ''/home/alice/.pcocc/.etcd-password'' @ [CHR 0x27]))"
proof -
  let ?p = "''/home/alice/.pcocc/.etcd-password''"
  let ?X = "example_state\<lparr>etcd_password := None,
       os_stat_answer := (os_stat_answer example_state)(?p := Inr 384),
       file_read_answer := (file_read_answer example_state)
          (?p := Inr (''00000000000000000000000000000000'' @ [CHR 0x0A]))\<rparr>"
  let ?Y = "example_state\<lparr>etcd_password := None,
          os_open_answer := (os_open_answer example_state)(?p := Inl EACCES)\<rparr>"
  have "init_password ?X
   = (Inr (), example_state\<lparr>etcd_password := Some ''00000000000000000000000000000000'',
        os_stat_answer := (os_stat_answer example_state)(?p := Inr 384),
        file_read_answer := (file_read_answer example_state)
          (?p := Inr (''00000000000000000000000000000000'' @ [CHR 0x0A])),
        os_log := [Stat ?p, FileRead ?p]\<rparr>)"
    by (simp add: init_password_def os_stat_def file_read_def warn_loose_def called_def Let_def
          example_state_def path_join_def strip_def is_space_def ETCD_PASSWORD_BYTES_def
          bad_perms_def S_IRGRP_def S_IWGRP_def S_IROTH_def S_IWOTH_def)
  moreover have "fst (init_password ?Y)
     = Inl (KeyCredentialError (''unable to generate password: [Errno 13] Permission denied: ''
              @ [CHR 0x27] @ ?p @ [CHR 0x27]))"
  proof -
    have "init_password ?Y
      = (Inl (KeyCredentialError (''unable to generate password: ''
               @ str_os_error EACCES (Some (path_join (pcocc_state_dir ?Y) ''.etcd-password'')))),
        ?Y\<lparr>os_log := os_log ?Y
            @ [Stat (path_join (pcocc_state_dir ?Y) ''.etcd-password''),
               Mkdir (pcocc_state_dir ?Y),
               Open (path_join (pcocc_state_dir ?Y) ''.etcd-password'') 256],
          entropy_pos := entropy_pos ?Y + 16,
          etcd_password := Some (b2a_hex (map (entropy ?Y) [entropy_pos ?Y ..< entropy_pos ?Y + 16]))\<rparr>)"
      by (rule init_password_open_fails) (simp_all add: example_state_def path_join_def)
    then show ?thesis
      by (simp add: str_os_error_def example_state_def path_join_def)
  qed
  ultimately show ?thesis by (simp add: example_state_def)
qed

text \<open>
  Claim C9, as the code has it. Under the persisted-secret strategy, for a process that is
  neither root nor a hypervisor: when no secret file exists, 16 bytes of \<^verbatim>\<open>os.urandom\<close>
  are turned into a secret of 32 hexadecimal characters, which is kept as \<open>etcd_password\<close>;
  the directory is made, the file is opened for creation with mode 0400, which whatever
  the umask grants nothing beyond read and write for the owner and nothing to group or
  others, and the secret is written to it; if the file cannot be opened the call raises
  \<open>KeyCredentialError\<close>. When the secret file exists, the secret is its content with
  surrounding whitespace stripped: if its length is not 32 the call raises
  \<open>KeyCredentialError\<close> with a message that tells to delete the file, and otherwise it is
  accepted.
\<close>

theorem init_password_persisted:
  "(uid st \<noteq> 0 \<and> proc_type st \<noteq> HYPERVISOR
      \<and> os_stat_answer st (path_join (pcocc_state_dir st) ''.etcd-password'') = Inl ENOENT
      \<and> os_open_answer st (path_join (pcocc_state_dir st) ''.etcd-password'') = Inr f
      \<and> os_write_answer st f
           (b2a_hex (map (entropy st) [entropy_pos st ..< entropy_pos st + 16])) = None
      \<and> os_close_answer st f = None
    \<longrightarrow> init_password st
          = (Inr (), st\<lparr>os_log := os_log st
                @ [Stat (path_join (pcocc_state_dir st) ''.etcd-password''),
                   Mkdir (pcocc_state_dir st),
                   Open (path_join (pcocc_state_dir st) ''.etcd-password'') 256,
                   Write_fd f (b2a_hex (map (entropy st) [entropy_pos st ..< entropy_pos st + 16])),
                   Close f],
              entropy_pos := entropy_pos st + 16,
              etcd_password :=
                Some (b2a_hex (map (entropy st) [entropy_pos st ..< entropy_pos st + 16]))\<rparr>))
   \<and> (uid so \<noteq> 0 \<and> proc_type so \<noteq> HYPERVISOR
      \<and> os_stat_answer so (path_join (pcocc_state_dir so) ''.etcd-password'') = Inl ENOENT
      \<and> os_open_answer so (path_join (pcocc_state_dir so) ''.etcd-password'') = Inl en
    \<longrightarrow> init_password so
          = (Inl (KeyCredentialError (''unable to generate password: ''
               @ str_os_error en (Some (path_join (pcocc_state_dir so) ''.etcd-password'')))),
             so\<lparr>os_log := os_log so
                @ [Stat (path_join (pcocc_state_dir so) ''.etcd-password''),
                   Mkdir (pcocc_state_dir so),
                   Open (path_join (pcocc_state_dir so) ''.etcd-password'') 256],
              entropy_pos := entropy_pos so + 16,
              etcd_password :=
                Some (b2a_hex (map (entropy so) [entropy_pos so ..< entropy_pos so + 16]))\<rparr>))
   \<and> length (b2a_hex (map (entropy st) [entropy_pos st ..< entropy_pos st + 16])) = 32
   \<and> 2 * ETCD_PASSWORD_BYTES = 32
   \<and> set (b2a_hex (map (entropy st) [entropy_pos st ..< entropy_pos st + 16]))
        \<subseteq> set ''0123456789abcdef''
   \<and> (256 AND NOT u) AND NOT 384 = 0
   \<and> (256 AND NOT u) AND bad_perms = 0
   \<and> (uid sx \<noteq> 0
      \<and> os_stat_answer sx (path_join (pcocc_state_dir sx) ''.etcd-password'') = Inr m
      \<and> file_read_answer sx (path_join (pcocc_state_dir sx) ''.etcd-password'') = Inr data
      \<and> length (strip data) \<noteq> 2 * ETCD_PASSWORD_BYTES
    \<longrightarrow> fst (init_password sx)
          = Inl (KeyCredentialError (''password file ''
                   @ path_join (pcocc_state_dir sx) ''.etcd-password''
                   @ '' is invalid, please delete it and allocate a new virual cluster'')))
   \<and> (uid sy \<noteq> 0
      \<and> os_stat_answer sy (path_join (pcocc_state_dir sy) ''.etcd-password'') = Inr m'
      \<and> file_read_answer sy (path_join (pcocc_state_dir sy) ''.etcd-password'') = Inr data'
      \<and> length (strip data') = 2 * ETCD_PASSWORD_BYTES
    \<longrightarrow> fst (init_password sy) = Inr ()
        \<and> etcd_password (snd (init_password sy)) = Some (strip data'))"
proof (intro conjI impI; (elim conjE)?)
  assume "uid st \<noteq> 0" "proc_type st \<noteq> HYPERVISOR"
    "os_stat_answer st (path_join (pcocc_state_dir st) ''.etcd-password'') = Inl ENOENT"
    "os_open_answer st (path_join (pcocc_state_dir st) ''.etcd-password'') = Inr f"
    "os_write_answer st f
           (b2a_hex (map (entropy st) [entropy_pos st ..< entropy_pos st + 16])) = None"
    "os_close_answer st f = None"
  then show "init_password st
          = (Inr (), st\<lparr>os_log := os_log st
                @ [Stat (path_join (pcocc_state_dir st) ''.etcd-password''),
                   Mkdir (pcocc_state_dir st),
                   Open (path_join (pcocc_state_dir st) ''.etcd-password'') 256,
                   Write_fd f (b2a_hex (map (entropy st) [entropy_pos st ..< entropy_pos st + 16])),
                   Close f],
              entropy_pos := entropy_pos st + 16,
              etcd_password :=
                Some (b2a_hex (map (entropy st) [entropy_pos st ..< entropy_pos st + 16]))\<rparr>)"
    by (rule init_password_generates)
next
  assume "uid so \<noteq> 0" "proc_type so \<noteq> HYPERVISOR"
    "os_stat_answer so (path_join (pcocc_state_dir so) ''.etcd-password'') = Inl ENOENT"
    "os_open_answer so (path_join (pcocc_state_dir so) ''.etcd-password'') = Inl en"
  then show "init_password so
          = (Inl (KeyCredentialError (''unable to generate password: ''
               @ str_os_error en (Some (path_join (pcocc_state_dir so) ''.etcd-password'')))),
             so\<lparr>os_log := os_log so
                @ [Stat (path_join (pcocc_state_dir so) ''.etcd-password''),
                   Mkdir (pcocc_state_dir so),
                   Open (path_join (pcocc_state_dir so) ''.etcd-password'') 256],
              entropy_pos := entropy_pos so + 16,
              etcd_password :=
                Some (b2a_hex (map (entropy so) [entropy_pos so ..< entropy_pos so + 16]))\<rparr>)"
    by (rule init_password_open_fails)
next
  show "length (b2a_hex (map (entropy st) [entropy_pos st ..< entropy_pos st + 16])) = 32"
    by (simp add: length_b2a_hex)
  show "2 * ETCD_PASSWORD_BYTES = 32" by (simp add: ETCD_PASSWORD_BYTES_def)
  show "set (b2a_hex (map (entropy st) [entropy_pos st ..< entropy_pos st + 16]))
          \<subseteq> set ''0123456789abcdef''"
    by (rule set_b2a_hex)
  show "(256 AND NOT u) AND NOT 384 = 0" by (rule mode_bits)
  show "(256 AND NOT u) AND bad_perms = 0" by (rule mode_bits)
next
  assume "uid sx \<noteq> 0"
    "os_stat_answer sx (path_join (pcocc_state_dir sx) ''.etcd-password'') = Inr m"
    "file_read_answer sx (path_join (pcocc_state_dir sx) ''.etcd-password'') = Inr data"
    "length (strip data) \<noteq> 2 * ETCD_PASSWORD_BYTES"
  then show "fst (init_password sx)
          = Inl (KeyCredentialError (''password file ''
                   @ path_join (pcocc_state_dir sx) ''.etcd-password''
                   @ '' is invalid, please delete it and allocate a new virual cluster''))"
    using init_password_reads(1) [of sx m data] by simp
next
  assume a: "uid sy \<noteq> 0"
    "os_stat_answer sy (path_join (pcocc_state_dir sy) ''.etcd-password'') = Inr m'"
    "file_read_answer sy (path_join (pcocc_state_dir sy) ''.etcd-password'') = Inr data'"
    "length (strip data') = 2 * ETCD_PASSWORD_BYTES"
  show "fst (init_password sy) = Inr ()"
    using a init_password_reads(1) [of sy m' data'] by simp
  show "etcd_password (snd (init_password sy)) = Some (strip data')"
    using a(1-3) by (rule init_password_reads(2))
qed

theorem init_password_persisted_witness:
  "init_password (example_state\<lparr>etcd_password := None\<rparr>)
     = (Inr (), example_state\<lparr>etcd_password := Some ''00000000000000000000000000000000'',
          os_log := [Stat ''/home/alice/.pcocc/.etcd-password'', Mkdir ''/home/alice/.pcocc'',
                     Open ''/home/alice/.pcocc/.etcd-password'' 256,
                     Write_fd 3 ''00000000000000000000000000000000'', Close 3],
          entropy_pos := 16\<rparr>)
   \<and> fst (init_password (example_state\<lparr>etcd_password := None, os_open_answer := (\<lambda>p. Inl ENOSPC)\<rparr>))
     = Inl (KeyCredentialError (''unable to generate password: [Errno 28] No space left on device: ''
              @ [CHR 0x27] @ ''/home/alice/.pcocc/.etcd-password'' @ [CHR 0x27]))
   \<and> fst (init_password (example_state\<lparr>etcd_password := None, os_stat_answer := (\<lambda>p. Inr 384),
          file_read_answer := (\<lambda>p. Inr ''0011'')\<rparr>))
     = Inl (KeyCredentialError
         ''password file /home/alice/.pcocc/.etcd-password is invalid, please delete it and allocate a new virual cluster'')
   \<and> fst (init_password (example_state\<lparr>etcd_password := None, os_stat_answer := (\<lambda>p. Inr 384),
          file_read_answer := (\<lambda>p. Inr (''0123456789abcdef0123456789abcdef'' @ [CHR 0x0A]))\<rparr>))
     = Inr ()
   \<and> etcd_password (snd (init_password (example_state\<lparr>etcd_password := None,
          os_stat_answer := (\<lambda>p. Inr 384),
          file_read_answer := (\<lambda>p. Inr (''0123456789abcdef0123456789abcdef'' @ [CHR 0x0A]))\<rparr>)))
     = Some ''0123456789abcdef0123456789abcdef''"
proof -
  let ?S = "example_state\<lparr>etcd_password := None\<rparr>"
  let ?O = "example_state\<lparr>etcd_password := None, os_open_answer := (\<lambda>p. Inl ENOSPC)\<rparr>"
  let ?X = "example_state\<lparr>etcd_password := None, os_stat_answer := (\<lambda>p. Inr 384),
          file_read_answer := (\<lambda>p. Inr ''0011'')\<rparr>"
  let ?Y = "example_state\<lparr>etcd_password := None, os_stat_answer := (\<lambda>p. Inr 384),
          file_read_answer := (\<lambda>p. Inr (''0123456789abcdef0123456789abcdef'' @ [CHR 0x0A]))\<rparr>"
  let ?p = "''/home/alice/.pcocc/.etcd-password''"
  have pj: "path_join (pcocc_state_dir ?S) ''.etcd-password'' = ?p"
    "path_join (pcocc_state_dir ?O) ''.etcd-password'' = ?p"
    "path_join (pcocc_state_dir ?X) ''.etcd-password'' = ?p"
    "path_join (pcocc_state_dir ?Y) ''.etcd-password'' = ?p"
    by (simp_all add: path_join_def example_state_def)
  have sec: "b2a_hex (map (entropy ?S) [entropy_pos ?S ..< entropy_pos ?S + 16])
               = ''00000000000000000000000000000000''"
    using example_secret by (simp add: example_state_def)
  have hs: "uid ?S \<noteq> 0 \<and> proc_type ?S \<noteq> HYPERVISOR
      \<and> os_stat_answer ?S (path_join (pcocc_state_dir ?S) ''.etcd-password'') = Inl ENOENT
      \<and> os_open_answer ?S (path_join (pcocc_state_dir ?S) ''.etcd-password'') = Inr 3
      \<and> os_write_answer ?S 3
           (b2a_hex (map (entropy ?S) [entropy_pos ?S ..< entropy_pos ?S + 16])) = None
      \<and> os_close_answer ?S 3 = None"
    by (simp add: example_state_def)
  have ho: "uid ?O \<noteq> 0 \<and> proc_type ?O \<noteq> HYPERVISOR
      \<and> os_stat_answer ?O (path_join (pcocc_state_dir ?O) ''.etcd-password'') = Inl ENOENT
      \<and> os_open_answer ?O (path_join (pcocc_state_dir ?O) ''.etcd-password'') = Inl ENOSPC"
    by (simp add: example_state_def)
  have hx: "uid ?X \<noteq> 0
      \<and> os_stat_answer ?X (path_join (pcocc_state_dir ?X) ''.etcd-password'') = Inr 384
      \<and> file_read_answer ?X (path_join (pcocc_state_dir ?X) ''.etcd-password'') = Inr ''0011''
      \<and> length (strip ''0011'') \<noteq> 2 * ETCD_PASSWORD_BYTES"
    by (simp add: example_state_def strip_def is_space_def ETCD_PASSWORD_BYTES_def)
  have st: "strip (''0123456789abcdef0123456789abcdef'' @ [CHR 0x0A]) = ''0123456789abcdef0123456789abcdef''"
    by (simp add: strip_def is_space_def)
  have hy: "uid ?Y \<noteq> 0
      \<and> os_stat_answer ?Y (path_join (pcocc_state_dir ?Y) ''.etcd-password'') = Inr 384
      \<and> file_read_answer ?Y (path_join (pcocc_state_dir ?Y) ''.etcd-password'')
          = Inr (''0123456789abcdef0123456789abcdef'' @ [CHR 0x0A])
      \<and> length (strip (''0123456789abcdef0123456789abcdef'' @ [CHR 0x0A])) = 2 * ETCD_PASSWORD_BYTES"
    unfolding st by (simp add: example_state_def ETCD_PASSWORD_BYTES_def)
  note T = init_password_persisted [where st = ?S and so = ?O and sx = ?X and sy = ?Y and f = 3
             and en = ENOSPC and m = 384 and m' = 384 and data = "''0011''"
             and data' = "''0123456789abcdef0123456789abcdef'' @ [CHR 0x0A]"]
  have a: "init_password ?S
     = (Inr (), example_state\<lparr>etcd_password := Some ''00000000000000000000000000000000'',
          os_log := [Stat ?p, Mkdir ''/home/alice/.pcocc'', Open ?p 256,
                     Write_fd 3 ''00000000000000000000000000000000'', Close 3],
          entropy_pos := 16\<rparr>)"
    using T [THEN conjunct1, rule_format, OF hs] unfolding sec pj
    by (simp add: example_state_def)
  have b: "fst (init_password ?O)
     = Inl (KeyCredentialError (''unable to generate password: [Errno 28] No space left on device: ''
              @ [CHR 0x27] @ ?p @ [CHR 0x27]))"
    using T [THEN conjunct2, THEN conjunct1, rule_format, OF ho] unfolding pj
    by (simp add: str_os_error_def)
  have c: "fst (init_password ?X) = Inl (KeyCredentialError
         ''password file /home/alice/.pcocc/.etcd-password is invalid, please delete it and allocate a new virual cluster'')"
    using T [THEN conjunct2, THEN conjunct2, THEN conjunct2, THEN conjunct2, THEN conjunct2,
             THEN conjunct2, THEN conjunct2, THEN conjunct1, rule_format, OF hx]
    unfolding pj by simp
  have d: "fst (init_password ?Y) = Inr ()
           \<and> etcd_password (snd (init_password ?Y)) = Some ''0123456789abcdef0123456789abcdef''"
    using T [THEN conjunct2, THEN conjunct2, THEN conjunct2, THEN conjunct2, THEN conjunct2,
             THEN conjunct2, THEN conjunct2, THEN conjunct2, rule_format, OF hy]
    unfolding st by simp
  show ?thesis using a b c d by simp
qed


end
